theory Spec2Isabelle
  imports Complex_Main
begin

section \<open>Stock portfolio tracker (app.py): a shallow embedding\<close>

text \<open>
  The program is one Flask module, \<^verbatim>\<open>app.py\<close>, over three SQLite tables. Its handlers are
  modelled as functions from the request and the database to a response and the database
  after the request. Conventions of the embedding:

  \<^item> Python \<^verbatim>\<open>str\<close> is \<open>string\<close>, restricted to ASCII.
  \<^item> Python \<^verbatim>\<open>float\<close> (prices, costs, totals) is \<open>rat\<close>: arithmetic is exact, so the
    rounding error of IEEE doubles and the special values \<^verbatim>\<open>nan\<close> and \<^verbatim>\<open>inf\<close> are outside the
    model. Python \<^verbatim>\<open>int\<close> is \<open>int\<close>.
  \<^item> The builtins \<^verbatim>\<open>int()\<close> and \<^verbatim>\<open>float()\<close> on a form field are parameters
    \<open>py_int\<close> and \<open>py_float\<close>; \<open>None\<close> is the \<^verbatim>\<open>ValueError\<close> they raise.
  \<^item> \<^verbatim>\<open>date.today()\<close> is the parameter \<open>today\<close>, and \<^verbatim>\<open>get_live_price\<close> (a call to
    an external quote service that maps every failure to \<^verbatim>\<open>None\<close>) is a parameter of type
    \<open>string \<Rightarrow> rat option\<close>.
  \<^item> The SQLite store is a record of three row lists in insertion order. An integer
    outside SQLite's 64-bit range is refused when it is bound to a statement.
\<close>

subsection \<open>Calendar dates: \<^verbatim>\<open>datetime.date\<close>\<close>

record date =
  year :: nat
  month :: nat
  day :: nat

definition is_leap :: "nat \<Rightarrow> bool" where
  "is_leap y = (y mod 4 = 0 \<and> (y mod 100 \<noteq> 0 \<or> y mod 400 = 0))"

definition days_in_month :: "nat \<Rightarrow> nat \<Rightarrow> nat" where
  "days_in_month y m =
     (if m = 2 \<and> is_leap y then 29
      else [31, 28, 31, 30, 31, 30, 31, 31, 30, 31, 30, 31] ! (m - 1))"

text \<open>The range check of the \<^verbatim>\<open>date\<close> constructor (\<^verbatim>\<open>MINYEAR = 1\<close>, \<^verbatim>\<open>MAXYEAR = 9999\<close>).\<close>

definition valid_date :: "date \<Rightarrow> bool" where
  "valid_date d =
     (1 \<le> year d \<and> year d \<le> 9999 \<and> 1 \<le> month d \<and> month d \<le> 12 \<and>
      1 \<le> day d \<and> day d \<le> days_in_month (year d) (month d))"

definition days_before_year :: "nat \<Rightarrow> int" where
  "days_before_year y =
     (let y' = int y - 1 in y' * 365 + y' div 4 - y' div 100 + y' div 400)"

definition days_before_month :: "nat \<Rightarrow> nat \<Rightarrow> int" where
  "days_before_month y m =
     [0, 31, 59, 90, 120, 151, 181, 212, 243, 273, 304, 334] ! (m - 1)
       + (if m > 2 \<and> is_leap y then 1 else 0)"

definition toordinal :: "date \<Rightarrow> int" where
  "toordinal d = days_before_year (year d) + days_before_month (year d) (month d) + int (day d)"

text \<open>\<^verbatim>\<open>(a - b).days\<close>\<close>

definition days_between :: "date \<Rightarrow> date \<Rightarrow> int" where
  "days_between a b = toordinal a - toordinal b"

text \<open>Dates compare as the tuples (year, month, day).\<close>

definition date_less :: "date \<Rightarrow> date \<Rightarrow> bool" where
  "date_less a b =
     (year a < year b \<or>
      (year a = year b \<and> (month a < month b \<or> (month a = month b \<and> day a < day b))))"

definition date_le :: "date \<Rightarrow> date \<Rightarrow> bool" where
  "date_le a b = (\<not> date_less b a)"

text \<open>\<^verbatim>\<open>min(a, b)\<close> returns its first argument unless the second is strictly smaller.\<close>

definition date_min :: "date \<Rightarrow> date \<Rightarrow> date" where
  "date_min a b = (if date_less b a then b else a)"

subsection \<open>\<^verbatim>\<open>strptime\<close> and \<^verbatim>\<open>strftime\<close> with the format \<^verbatim>\<open>%Y-%m-%d\<close>\<close>

definition is_digit :: "char \<Rightarrow> bool" where
  "is_digit c = (48 \<le> (of_char c :: nat) \<and> (of_char c :: nat) \<le> 57)"

definition digit_val :: "char \<Rightarrow> nat" where
  "digit_val c = of_char c - 48"

definition digit_char :: "nat \<Rightarrow> char" where
  "digit_char n = char_of (48 + n)"

text \<open>
  The directives match these regular expressions (\<^verbatim>\<open>_strptime.py\<close>), and the whole string
  has to be consumed:
  \<^verbatim>\<open>%Y\<close> is \<^verbatim>\<open>\d\d\d\d\<close>, \<^verbatim>\<open>%m\<close> is \<^verbatim>\<open>1[0-2]|0[1-9]|[1-9]\<close> and
  \<^verbatim>\<open>%d\<close> is \<^verbatim>\<open>3[0-1]|[1-2]\d|0[1-9]|[1-9]| [1-9]\<close>.
\<close>

fun match_Y :: "string \<Rightarrow> nat option" where
  "match_Y [a, b, c, d] =
     (if is_digit a \<and> is_digit b \<and> is_digit c \<and> is_digit d
      then Some (1000 * digit_val a + 100 * digit_val b + 10 * digit_val c + digit_val d)
      else None)"
| "match_Y _ = None"

fun match_m :: "string \<Rightarrow> nat option" where
  "match_m [a, b] =
     (if a = CHR ''1'' \<and> is_digit b \<and> digit_val b \<le> 2 then Some (10 + digit_val b)
      else if a = CHR ''0'' \<and> is_digit b \<and> 1 \<le> digit_val b then Some (digit_val b)
      else None)"
| "match_m [a] = (if is_digit a \<and> 1 \<le> digit_val a then Some (digit_val a) else None)"
| "match_m _ = None"

fun match_d :: "string \<Rightarrow> nat option" where
  "match_d [a, b] =
     (if a = CHR ''3'' \<and> is_digit b \<and> digit_val b \<le> 1 then Some (30 + digit_val b)
      else if (a = CHR ''1'' \<or> a = CHR ''2'') \<and> is_digit b then Some (10 * digit_val a + digit_val b)
      else if (a = CHR ''0'' \<or> a = CHR '' '') \<and> is_digit b \<and> 1 \<le> digit_val b
      then Some (digit_val b)
      else None)"
| "match_d [a] = (if is_digit a \<and> 1 \<le> digit_val a then Some (digit_val a) else None)"
| "match_d _ = None"

text \<open>
  \<^verbatim>\<open>datetime.strptime(s, "%Y-%m-%d").date()\<close>: the year is the first four characters, the
  month runs to the next hyphen, the day is the rest; \<open>None\<close> is the \<^verbatim>\<open>ValueError\<close> of a
  string that does not match or of a day that is not in the calendar.
\<close>

definition strptime_ymd :: "string \<Rightarrow> date option" where
  "strptime_ymd s =
     (if length s < 5 \<or> s ! 4 \<noteq> CHR ''-'' then None
      else let rest = drop 5 s;
               ms = takeWhile (\<lambda>c. c \<noteq> CHR ''-'') rest;
               ds = drop (Suc (length ms)) rest
           in if length ms = length rest then None
              else case match_Y (take 4 s) of
                     None \<Rightarrow> None
                   | Some y \<Rightarrow>
                      (case match_m ms of
                         None \<Rightarrow> None
                       | Some m \<Rightarrow>
                          (case match_d ds of
                             None \<Rightarrow> None
                           | Some d \<Rightarrow>
                              (let r = \<lparr>year = y, month = m, day = d\<rparr>
                               in if valid_date r then Some r else None))))"

text \<open>
  \<^verbatim>\<open>d.strftime("%Y-%m-%d")\<close>, as CPython passes it to the C library: the year is written as
  a decimal number with no padding (year 999 gives \<^verbatim>\<open>999-01-01\<close>), the month and the day
  with two digits.
\<close>

definition pad2 :: "nat \<Rightarrow> string" where
  "pad2 n = [digit_char (n div 10 mod 10), digit_char (n mod 10)]"

definition pad4 :: "nat \<Rightarrow> string" where
  "pad4 n = [digit_char (n div 1000 mod 10), digit_char (n div 100 mod 10),
             digit_char (n div 10 mod 10), digit_char (n mod 10)]"

definition year_digits :: "nat \<Rightarrow> string" where
  "year_digits y =
     (if y < 10 then [digit_char y]
      else if y < 100 then pad2 y
      else if y < 1000 then [digit_char (y div 100 mod 10), digit_char (y div 10 mod 10),
                             digit_char (y mod 10)]
      else pad4 y)"

definition strftime_ymd :: "date \<Rightarrow> string" where
  "strftime_ymd d = year_digits (year d) @ ''-'' @ pad2 (month d) @ ''-'' @ pad2 (day d)"

text \<open>
  \<^verbatim>\<open>
  def parse_date(d: str):
      try:
          return datetime.strptime(d, "%Y-%m-%d").date()
      except Exception:
          return None
  \<close>
\<close>

definition parse_date :: "string \<Rightarrow> date option" where
  "parse_date d = strptime_ymd d"

subsection \<open>Python builtins used by the handlers\<close>

text \<open>\<^verbatim>\<open>str.upper\<close> and \<^verbatim>\<open>str.strip\<close> on ASCII text.\<close>

definition upper_char :: "char \<Rightarrow> char" where
  "upper_char c =
     (if 97 \<le> (of_char c :: nat) \<and> (of_char c :: nat) \<le> 122 then char_of ((of_char c :: nat) - 32)
      else c)"

definition upper :: "string \<Rightarrow> string" where
  "upper s = map upper_char s"

definition is_space :: "char \<Rightarrow> bool" where
  "is_space c = ((of_char c :: nat) \<in> {9, 10, 11, 12, 13, 28, 29, 30, 31, 32})"

definition strip :: "string \<Rightarrow> string" where
  "strip s = rev (dropWhile is_space (rev (dropWhile is_space s)))"

text \<open>
  \<^verbatim>\<open>round(x, n)\<close> on a float: to \<open>n\<close> decimal places, a tie going to the even neighbour.
\<close>

definition round_half_even :: "rat \<Rightarrow> int" where
  "round_half_even x =
     (let f = \<lfloor>x\<rfloor>; r = x - of_int f
      in if r < 1 / 2 then f else if 1 / 2 < r then f + 1 else if even f then f else f + 1)"

definition py_round :: "rat \<Rightarrow> nat \<Rightarrow> rat" where
  "py_round x n = of_int (round_half_even (x * 10 ^ n)) / 10 ^ n"

subsection \<open>The database and the request\<close>

text \<open>
  The tables of \<^verbatim>\<open>init_db\<close>. \<^verbatim>\<open>stocks(id, symbol UNIQUE, quantity, buy_price, buy_date,
  notes)\<close> is read with \<^verbatim>\<open>SELECT *\<close>, so its rows keep the id. The handlers read only the
  symbol of \<^verbatim>\<open>watchlist(id, symbol UNIQUE)\<close> and the symbol and target of \<^verbatim>\<open>alerts(id,
  symbol, target)\<close>, so those rows are a symbol and a symbol with a target.
\<close>

record stock_row =
  row_id :: nat
  symbol :: string
  quantity :: int
  buy_price :: rat
  buy_date :: string
  row_notes :: string

record db =
  stocks :: "stock_row list"
  watchlist :: "string list"
  alerts :: "(string \<times> rat) list"

datatype error =
  BadRequestKeyError | ValueError | ZeroDivisionError | OverflowError | IntegrityError

text \<open>
  What a handler gives back: the redirect it returns, or the exception that leaves it. The
  second component of a handler's result is the database after the request; an exception
  that leaves the handler before \<^verbatim>\<open>conn.commit()\<close> leaves the database as it was.
\<close>

datatype response = Redirect string | Raised error

text \<open>\<^verbatim>\<open>request.form\<close>: indexing a missing field raises (a 400 response).\<close>

type_synonym form = "string \<rightharpoonup> string"

text \<open>
  Two limits on a Python \<^verbatim>\<open>int\<close>. Binding it to a statement raises \<^verbatim>\<open>OverflowError\<close>
  outside SQLite's 64-bit INTEGER; arithmetic with a float converts it to a double and
  raises \<^verbatim>\<open>OverflowError\<close> when it rounds to \<open>2 ^ 1024\<close> or beyond.
\<close>

definition sqlite_integer :: "int \<Rightarrow> bool" where
  "sqlite_integer n = (- (2 ^ 63) \<le> n \<and> n < 2 ^ 63)"

definition float_of_int_ok :: "int \<Rightarrow> bool" where
  "float_of_int_ok n = (\<bar>n\<bar> < 2 ^ 1024 - 2 ^ 970)"

text \<open>\<^verbatim>\<open>SELECT quantity, buy_price, buy_date FROM stocks WHERE symbol=?\<close> with \<^verbatim>\<open>fetchone()\<close>.\<close>

definition select_stock :: "string \<Rightarrow> stock_row list \<Rightarrow> stock_row option" where
  "select_stock symb rows = find (\<lambda>r. symbol r = symb) rows"

text \<open>
  \<^verbatim>\<open>UPDATE stocks SET quantity=?, buy_price=?, buy_date=?, notes=? WHERE symbol=?\<close>: the
  rows after the statement, and the statement with the binding of its parameters.
\<close>

definition updated_rows ::
  "int \<Rightarrow> rat \<Rightarrow> string \<Rightarrow> string \<Rightarrow> string \<Rightarrow> stock_row list \<Rightarrow> stock_row list" where
  "updated_rows q bp ds n symb rows =
     map (\<lambda>r. if symbol r = symb
              then r\<lparr>quantity := q, buy_price := bp, buy_date := ds, row_notes := n\<rparr>
              else r) rows"

definition update_stock ::
  "int \<Rightarrow> rat \<Rightarrow> string \<Rightarrow> string \<Rightarrow> string \<Rightarrow> stock_row list \<Rightarrow> error + stock_row list" where
  "update_stock q bp ds n symb rows =
     (if sqlite_integer q then Inr (updated_rows q bp ds n symb rows) else Inl OverflowError)"

text \<open>\<^verbatim>\<open>INSERT INTO stocks(symbol, quantity, buy_price, buy_date, notes) VALUES (...)\<close>\<close>

definition next_id :: "stock_row list \<Rightarrow> nat" where
  "next_id rows = Suc (fold max (map row_id rows) 0)"

definition inserted_rows ::
  "string \<Rightarrow> int \<Rightarrow> rat \<Rightarrow> string \<Rightarrow> string \<Rightarrow> stock_row list \<Rightarrow> stock_row list" where
  "inserted_rows symb q bp ds n rows =
     rows @ [\<lparr>row_id = next_id rows, symbol = symb, quantity = q, buy_price = bp,
              buy_date = ds, row_notes = n\<rparr>]"

definition insert_stock ::
  "string \<Rightarrow> int \<Rightarrow> rat \<Rightarrow> string \<Rightarrow> string \<Rightarrow> stock_row list \<Rightarrow> error + stock_row list" where
  "insert_stock symb q bp ds n rows =
     (if sqlite_integer q then Inr (inserted_rows symb q bp ds n rows) else Inl OverflowError)"

text \<open>
  \<^verbatim>\<open>INSERT INTO watchlist(symbol) VALUES(?)\<close>: the UNIQUE constraint raises
  \<^verbatim>\<open>sqlite3.IntegrityError\<close> on a symbol that is already there.
\<close>

definition insert_watchlist :: "string \<Rightarrow> string list \<Rightarrow> error + string list" where
  "insert_watchlist symb rows = (if symb \<in> set rows then Inl IntegrityError else Inr (rows @ [symb]))"

subsection \<open>\<^verbatim>\<open>dashboard\<close>, POST: add or update a stock (lines 62 to 101)\<close>

record purchase =
  p_symbol :: string
  p_quantity :: int
  p_buy_price :: rat
  p_buy_date_str :: string
  p_notes :: string

text \<open>
  \<^verbatim>\<open>
  symbol = request.form["symbol"].upper().strip()
  quantity = int(request.form["quantity"])
  buy_price = float(request.form["buy_price"])
  buy_date_str = request.form["buy_date"]
  notes = request.form.get("notes", "").strip()
  \<close>
\<close>

definition read_purchase ::
  "(string \<Rightarrow> int option) \<Rightarrow> (string \<Rightarrow> rat option) \<Rightarrow> form \<Rightarrow> error + purchase" where
  "read_purchase py_int py_float f =
     (case f ''symbol'' of
        None \<Rightarrow> Inl BadRequestKeyError
      | Some s \<Rightarrow>
         (case f ''quantity'' of
            None \<Rightarrow> Inl BadRequestKeyError
          | Some qs \<Rightarrow>
             (case py_int qs of
                None \<Rightarrow> Inl ValueError
              | Some q \<Rightarrow>
                 (case f ''buy_price'' of
                    None \<Rightarrow> Inl BadRequestKeyError
                  | Some ps \<Rightarrow>
                     (case py_float ps of
                        None \<Rightarrow> Inl ValueError
                      | Some bp \<Rightarrow>
                         (case f ''buy_date'' of
                            None \<Rightarrow> Inl BadRequestKeyError
                          | Some ds \<Rightarrow>
                             Inr \<lparr>p_symbol = strip (upper s), p_quantity = q,
                                  p_buy_price = bp, p_buy_date_str = ds,
                                  p_notes = strip (case f ''notes'' of None \<Rightarrow> [] | Some n \<Rightarrow> n)\<rparr>))))))"

text \<open>
  \<^verbatim>\<open>
  today = date.today()
  buy_date = parse_date(buy_date_str)
  if not buy_date or buy_date > today:
      buy_date = today
      buy_date_str = today.strftime("%Y-%m-%d")
  \<close>
\<close>

definition clamp_date :: "date \<Rightarrow> string \<Rightarrow> date \<times> string" where
  "clamp_date today buy_date_str =
     (case parse_date buy_date_str of
        None \<Rightarrow> (today, strftime_ymd today)
      | Some bdate \<Rightarrow>
         if date_less today bdate then (today, strftime_ymd today)
         else (bdate, buy_date_str))"

text \<open>
  The branch \<^verbatim>\<open>if row:\<close> (lines 80 to 92). Line 83 multiplies a float by an int twice and
  divides a float by an int: each int is converted to a double first, then the division
  raises \<^verbatim>\<open>ZeroDivisionError\<close> on a zero divisor. The model keeps the exact quotient; the
  code stores the IEEE double nearest to it. The \<^verbatim>\<open>UPDATE\<close> binds \<^verbatim>\<open>new_qty\<close>, the
  \<^verbatim>\<open>INSERT\<close> of the other branch binds \<^verbatim>\<open>quantity\<close>.
\<close>

definition merge_purchase ::
  "purchase \<Rightarrow> date \<Rightarrow> stock_row \<Rightarrow> db \<Rightarrow> response \<times> db" where
  "merge_purchase p bdate row d =
     (let old_qty = quantity row; old_bp = buy_price row; old_date_str = buy_date row;
          new_qty = old_qty + p_quantity p
      in if \<not> float_of_int_ok old_qty \<or> \<not> float_of_int_ok (p_quantity p)
            \<or> \<not> float_of_int_ok new_qty
         then (Raised OverflowError, d)
         else if new_qty = 0 then (Raised ZeroDivisionError, d)
         else
          (let new_bp = (old_bp * of_int old_qty + p_buy_price p * of_int (p_quantity p))
                          / of_int new_qty;
               old_date = (case parse_date old_date_str of Some od \<Rightarrow> od | None \<Rightarrow> bdate);
               final_date = date_min old_date bdate
           in case update_stock new_qty new_bp (strftime_ymd final_date) (p_notes p)
                     (p_symbol p) (stocks d) of
                Inl e \<Rightarrow> (Raised e, d)
              | Inr rows \<Rightarrow> (Redirect ''/'', d\<lparr>stocks := rows\<rparr>)))"

definition dashboard_post ::
  "(string \<Rightarrow> int option) \<Rightarrow> (string \<Rightarrow> rat option) \<Rightarrow> date \<Rightarrow> form \<Rightarrow> db \<Rightarrow> response \<times> db" where
  "dashboard_post py_int py_float today f d =
     (case read_purchase py_int py_float f of
        Inl e \<Rightarrow> (Raised e, d)
      | Inr p \<Rightarrow>
         (case clamp_date today (p_buy_date_str p) of
            (bdate, bdate_str) \<Rightarrow>
              (case select_stock (p_symbol p) (stocks d) of
                 Some row \<Rightarrow> merge_purchase p bdate row d
               | None \<Rightarrow>
                  (case insert_stock (p_symbol p) (p_quantity p) (p_buy_price p)
                          bdate_str (p_notes p) (stocks d) of
                     Inl e \<Rightarrow> (Raised e, d)
                   | Inr rows \<Rightarrow> (Redirect ''/'', d\<lparr>stocks := rows\<rparr>)))))"

text \<open>
  A history of purchase requests, each with the day it was made on, applied in order. A
  request that raises leaves the database as it was.
\<close>

fun dashboard_posts ::
  "(string \<Rightarrow> int option) \<Rightarrow> (string \<Rightarrow> rat option) \<Rightarrow> (date \<times> form) list \<Rightarrow> db \<Rightarrow> db" where
  "dashboard_posts py_int py_float [] d = d"
| "dashboard_posts py_int py_float ((today, f) # requests) d =
     dashboard_posts py_int py_float requests (snd (dashboard_post py_int py_float today f d))"

subsection \<open>\<^verbatim>\<open>add_watch\<close> and \<^verbatim>\<open>add_alert\<close>\<close>

definition add_watch :: "form \<Rightarrow> db \<Rightarrow> response \<times> db" where
  "add_watch f d =
     (case f ''symbol'' of
        None \<Rightarrow> (Raised BadRequestKeyError, d)
      | Some s \<Rightarrow>
         (let symb = strip (upper s)
          in if symb = [] then (Redirect ''/'', d)
             else case insert_watchlist symb (watchlist d) of
                    Inr rows \<Rightarrow> (Redirect ''/'', d\<lparr>watchlist := rows\<rparr>)
                  | Inl IntegrityError \<Rightarrow> (Redirect ''/'', d)
                  | Inl e \<Rightarrow> (Raised e, d)))"

definition add_alert :: "(string \<Rightarrow> rat option) \<Rightarrow> form \<Rightarrow> db \<Rightarrow> response \<times> db" where
  "add_alert py_float f d =
     (case f ''symbol'' of
        None \<Rightarrow> (Raised BadRequestKeyError, d)
      | Some s \<Rightarrow>
         (case f ''target'' of
            None \<Rightarrow> (Raised BadRequestKeyError, d)
          | Some ts \<Rightarrow>
             (case py_float ts of
                None \<Rightarrow> (Raised ValueError, d)
              | Some target \<Rightarrow>
                 (Redirect ''/'', d\<lparr>alerts := alerts d @ [(strip (upper s), target)]\<rparr>))))"

subsection \<open>\<^verbatim>\<open>dashboard\<close>, GET: the valuation pass (lines 118 to 163)\<close>

text \<open>One dictionary appended to \<^verbatim>\<open>portfolio\<close>.\<close>

record entry =
  e_symbol :: string
  e_qty :: int
  e_bp :: rat
  e_live :: rat
  e_invest :: rat
  e_current :: rat
  e_profit :: rat
  e_notes :: string
  e_buy_date :: string
  e_holding_type :: string
  e_invalid :: bool

text \<open>The local variables the loop carries from one row to the next.\<close>

record valuation =
  portfolio :: "entry list"
  total_invested :: rat
  total_value :: rat
  total_long_pl :: rat
  total_short_pl :: rat

text \<open>
  \<^verbatim>\<open>live_val = live_price if live_price is not None else 0.0\<close>, and the three products of
  lines 131 to 133.
\<close>

definition live_val :: "rat option \<Rightarrow> rat" where
  "live_val live_price = (case live_price of Some p \<Rightarrow> p | None \<Rightarrow> 0)"

definition invested :: "stock_row \<Rightarrow> rat" where
  "invested r = of_int (quantity r) * buy_price r"

definition current :: "(string \<Rightarrow> rat option) \<Rightarrow> stock_row \<Rightarrow> rat" where
  "current get_live_price r = of_int (quantity r) * live_val (get_live_price (symbol r))"

definition pl :: "(string \<Rightarrow> rat option) \<Rightarrow> stock_row \<Rightarrow> rat" where
  "pl get_live_price r = current get_live_price r - invested r"

text \<open>
  Lines 138 to 147: the holding type of a row, and the two sums after it.
  \<^verbatim>\<open>
  holding_type = "N/A"
  d = parse_date(buy_date_str)
  if d:
      days_held = (today - d).days
      if days_held > 365:
          holding_type = "Long"
          total_long_pl += pl
      else:
          holding_type = "Short"
          total_short_pl += pl
  \<close>
\<close>

definition classify :: "date \<Rightarrow> string \<Rightarrow> rat \<Rightarrow> rat \<Rightarrow> rat \<Rightarrow> string \<times> rat \<times> rat" where
  "classify today buy_date_str p long_pl short_pl =
     (case parse_date buy_date_str of
        None \<Rightarrow> (''N/A'', long_pl, short_pl)
      | Some d \<Rightarrow>
         (let days_held = days_between today d
          in if days_held > 365 then (''Long'', long_pl + p, short_pl)
             else (''Short'', long_pl, short_pl + p)))"

definition valuation_step ::
  "(string \<Rightarrow> rat option) \<Rightarrow> date \<Rightarrow> valuation \<Rightarrow> stock_row \<Rightarrow> valuation" where
  "valuation_step get_live_price today v r =
     (let live_price = get_live_price (symbol r);
          invalid = (live_price = None)
      in case classify today (buy_date r) (pl get_live_price r) (total_long_pl v) (total_short_pl v) of
           (holding_type, long_pl, short_pl) \<Rightarrow>
             \<lparr>portfolio = portfolio v @
                [\<lparr>e_symbol = symbol r, e_qty = quantity r, e_bp = py_round (buy_price r) 2,
                  e_live = py_round (live_val live_price) 2,
                  e_invest = py_round (invested r) 2,
                  e_current = py_round (current get_live_price r) 2,
                  e_profit = py_round (pl get_live_price r) 2,
                  e_notes = row_notes r, e_buy_date = buy_date r,
                  e_holding_type = holding_type, e_invalid = invalid\<rparr>],
              total_invested = total_invested v + invested r,
              total_value = total_value v + current get_live_price r,
              total_long_pl = long_pl,
              total_short_pl = short_pl\<rparr>)"

definition valuate :: "(string \<Rightarrow> rat option) \<Rightarrow> date \<Rightarrow> stock_row list \<Rightarrow> valuation" where
  "valuate get_live_price today stock_rows =
     foldl (valuation_step get_live_price today)
       \<lparr>portfolio = [], total_invested = 0, total_value = 0, total_long_pl = 0,
        total_short_pl = 0\<rparr>
       stock_rows"

text \<open>\<^verbatim>\<open>total_profit = total_value - total_invested\<close>\<close>

definition total_profit :: "valuation \<Rightarrow> rat" where
  "total_profit v = total_value v - total_invested v"

subsection \<open>\<^verbatim>\<open>dashboard\<close>, GET: alerts, trending symbols and the rendered page\<close>

record alert_entry =
  a_symbol :: string
  a_target :: rat
  a_live :: rat
  a_hit :: bool

definition alert_step :: "(string \<Rightarrow> rat option) \<Rightarrow> string \<times> rat \<Rightarrow> alert_entry" where
  "alert_step get_live_price row =
     (case row of
        (symb, target) \<Rightarrow>
          (let lp = get_live_price symb;
               lv = (case lp of Some p \<Rightarrow> p | None \<Rightarrow> 0)
           in \<lparr>a_symbol = symb, a_target = py_round target 2, a_live = py_round lv 2,
               a_hit = (lp \<noteq> None \<and> lv \<ge> target)\<rparr>))"

definition evaluate_alerts ::
  "(string \<Rightarrow> rat option) \<Rightarrow> (string \<times> rat) list \<Rightarrow> alert_entry list" where
  "evaluate_alerts get_live_price alert_rows = map (alert_step get_live_price) alert_rows"

definition TRENDING :: "string list" where
  "TRENDING = [''TSLA'', ''AAPL'', ''GOOGL'', ''META'', ''NVDA'', ''MSFT'', ''AMZN'', ''NFLX'']"

definition trending :: "(string \<Rightarrow> rat option) \<Rightarrow> (string \<times> rat) list" where
  "trending get_live_price =
     map (\<lambda>t. (t, py_round (case get_live_price t of Some p \<Rightarrow> p | None \<Rightarrow> 0) 2)) TRENDING"

text \<open>The arguments of \<^verbatim>\<open>render_template\<close>: the totals are rounded here and only here.\<close>

record page =
  pg_portfolio :: "entry list"
  pg_total_invested :: rat
  pg_total_value :: rat
  pg_total_profit :: rat
  pg_total_long_pl :: rat
  pg_total_short_pl :: rat
  pg_watchlist :: "string list"
  pg_alerts :: "alert_entry list"
  pg_trending :: "(string \<times> rat) list"

definition dashboard_get :: "(string \<Rightarrow> rat option) \<Rightarrow> date \<Rightarrow> db \<Rightarrow> page" where
  "dashboard_get get_live_price today d =
     (let v = valuate get_live_price today (stocks d)
      in \<lparr>pg_portfolio = portfolio v,
          pg_total_invested = py_round (total_invested v) 2,
          pg_total_value = py_round (total_value v) 2,
          pg_total_profit = py_round (total_profit v) 2,
          pg_total_long_pl = py_round (total_long_pl v) 2,
          pg_total_short_pl = py_round (total_short_pl v) 2,
          pg_watchlist = watchlist d,
          pg_alerts = evaluate_alerts get_live_price (alerts d),
          pg_trending = trending get_live_price\<rparr>)"

subsection \<open>Concrete inputs\<close>

text \<open>
  Two instances of the parameters \<open>py_int\<close> and \<open>py_float\<close>, used where a handler is run on
  a concrete request: the unsigned decimal literals, which \<^verbatim>\<open>int()\<close> and \<^verbatim>\<open>float()\<close> read as
  the number they write, and \<open>None\<close> on every other string.
\<close>

definition decimal_int :: "string \<Rightarrow> int option" where
  "decimal_int s =
     (if s \<noteq> [] \<and> list_all is_digit s
      then Some (int (foldl (\<lambda>n c. 10 * n + digit_val c) 0 s)) else None)"

definition decimal_float :: "string \<Rightarrow> rat option" where
  "decimal_float s = map_option of_int (decimal_int s)"

definition empty_db :: db where
  "empty_db = \<lparr>stocks = [], watchlist = [], alerts = []\<rparr>"

text \<open>The days of the examples.\<close>

definition day_2024_03_01 :: date where
  "day_2024_03_01 = \<lparr>year = 2024, month = 3, day = 1\<rparr>"

definition day_0999_01_01 :: date where
  "day_0999_01_01 = \<lparr>year = 999, month = 1, day = 1\<rparr>"

definition day_2020_01_01 :: date where
  "day_2020_01_01 = \<lparr>year = 2020, month = 1, day = 1\<rparr>"

definition day_2021_01_01 :: date where
  "day_2021_01_01 = \<lparr>year = 2021, month = 1, day = 1\<rparr>"

text \<open>
  Three stored positions seen on 2024-03-01: bought 365 days before, 366 days before (one
  calendar year, across a leap day), and with a date that does not parse.
\<close>

definition three_rows :: "stock_row list" where
  "three_rows =
     [\<lparr>row_id = 1, symbol = ''A'', quantity = 1, buy_price = 10, buy_date = ''2023-03-02'',
       row_notes = []\<rparr>,
      \<lparr>row_id = 2, symbol = ''B'', quantity = 1, buy_price = 20, buy_date = ''2023-03-01'',
       row_notes = []\<rparr>,
      \<lparr>row_id = 3, symbol = ''C'', quantity = 1, buy_price = 40, buy_date = ''unknown'',
       row_notes = []\<rparr>]"

text \<open>A position of 5 units bought at 10, and a quote service that answers nothing.\<close>

definition five_at_ten :: stock_row where
  "five_at_ten =
     \<lparr>row_id = 1, symbol = ''XYZ'', quantity = 5, buy_price = 10, buy_date = ''2024-01-15'',
      row_notes = []\<rparr>"

definition no_quotes :: "string \<Rightarrow> rat option" where
  "no_quotes symb = None"


definition buy_10_at_200 :: form where
  "buy_10_at_200 =
     [''symbol'' \<mapsto> ''AAPL'', ''quantity'' \<mapsto> ''10'', ''buy_price'' \<mapsto> ''200'',
      ''buy_date'' \<mapsto> ''2020-01-01'']"

definition aapl_10_at_100 :: stock_row where
  "aapl_10_at_100 =
     \<lparr>row_id = 1, symbol = ''AAPL'', quantity = 10, buy_price = 100, buy_date = ''2021-01-01'',
      row_notes = []\<rparr>"

definition bought_200 :: purchase where
  "bought_200 =
     \<lparr>p_symbol = ''AAPL'', p_quantity = 10, p_buy_price = 200, p_buy_date_str = ''2020-01-01'',
      p_notes = []\<rparr>"

text \<open>The database after the first of these purchases, and forms the code answers otherwise.\<close>

definition aapl_db :: db where
  "aapl_db = \<lparr>stocks = [aapl_10_at_100], watchlist = [], alerts = []\<rparr>"

definition buy_2_63_at_200 :: form where
  "buy_2_63_at_200 = buy_10_at_200(''quantity'' \<mapsto> ''9223372036854775808'')"

definition buy_dated_0999 :: form where
  "buy_dated_0999 = buy_10_at_200(''buy_date'' \<mapsto> ''0999-01-01'')"

definition buy_without_date :: form where
  "buy_without_date =
     [''symbol'' \<mapsto> ''AAPL'', ''quantity'' \<mapsto> ''10'', ''buy_price'' \<mapsto> ''200'']"

text \<open>A stored position whose date column does not parse.\<close>

definition undated_db :: db where
  "undated_db =
     \<lparr>stocks = [\<lparr>row_id = 1, symbol = ''AAPL'', quantity = 10, buy_price = 100,
                  buy_date = ''01/01/2021'', row_notes = []\<rparr>],
      watchlist = [], alerts = []\<rparr>"

subsection \<open>Notions used to state the properties\<close>

text \<open>The holding type of a stored date string, and the dictionary the loop appends for a row.\<close>

definition holding_type :: "date \<Rightarrow> string \<Rightarrow> string" where
  "holding_type today buy_date_str = fst (classify today buy_date_str 0 0 0)"

definition row_entry :: "(string \<Rightarrow> rat option) \<Rightarrow> date \<Rightarrow> stock_row \<Rightarrow> entry" where
  "row_entry get_live_price today r =
     last (portfolio (valuation_step get_live_price today
       \<lparr>portfolio = [], total_invested = 0, total_value = 0, total_long_pl = 0,
        total_short_pl = 0\<rparr> r))"

section \<open>Properties\<close>

text \<open>The equations that evaluate the date functions on concrete dates and strings.\<close>

lemmas date_eval =
  parse_date_def strptime_ymd_def is_digit_def digit_val_def valid_date_def days_in_month_def
  is_leap_def days_between_def toordinal_def days_before_year_def days_before_month_def
  date_less_def date_le_def date_min_def strftime_ymd_def year_digits_def pad2_def pad4_def
  digit_char_def
  Let_def

subsection \<open>Dates: what \<^verbatim>\<open>strptime\<close> reads back from \<^verbatim>\<open>strftime\<close>\<close>

lemma digit_char_eq_iff: "n < 10 \<Longrightarrow> (digit_char n = c) = ((of_char c :: nat) = 48 + n)"
proof -
  assume "n < 10"
  then have "48 + n < 2 ^ 8" by simp
  then have "take_bit 8 (48 + n) = 48 + n" by (rule take_bit_nat_eq_self)
  then show ?thesis by (auto simp: digit_char_def char_of_eq_iff)
qed

lemma digit_char_val: "n < 10 \<Longrightarrow> is_digit (digit_char n) \<and> digit_val (digit_char n) = n"
  by (simp add: is_digit_def digit_val_def digit_char_def)

lemma digits4:
  fixes y :: nat
  shows "1000 * (y div 1000 mod 10) + 100 * (y div 100 mod 10) + 10 * (y div 10 mod 10) + y mod 10
           = y mod 10000"
proof -
  have a: "y mod 100 = 10 * (y div 10 mod 10) + y mod 10"
    using mod_mult2_eq [of y 10 10] by simp
  have b: "y mod 1000 = 100 * (y div 100 mod 10) + y mod 100"
    using mod_mult2_eq [of y 100 10] by simp
  have c: "y mod 10000 = 1000 * (y div 1000 mod 10) + y mod 1000"
    using mod_mult2_eq [of y 1000 10] by simp
  show ?thesis unfolding a b c by simp
qed

lemma match_Y_pad4: "y < 10000 \<Longrightarrow> match_Y (pad4 y) = Some y"
  using digits4 [of y] by (simp add: pad4_def digit_char_val)

lemma nat_le_12_cases:
  "1 \<le> m \<Longrightarrow> m \<le> 12 \<Longrightarrow> m \<in> {1, 2, 3, 4, 5, 6, 7, 8, 9, 10, 11, 12::nat}"
  unfolding insert_iff empty_iff by presburger

lemma nat_le_31_cases:
  "1 \<le> d \<Longrightarrow> d \<le> 31 \<Longrightarrow>
   d \<in> {1, 2, 3, 4, 5, 6, 7, 8, 9, 10, 11, 12, 13, 14, 15, 16, 17, 18, 19, 20,
        21, 22, 23, 24, 25, 26, 27, 28, 29, 30, 31::nat}"
  unfolding insert_iff empty_iff by presburger

lemma match_m_pad2:
  assumes "1 \<le> m" "m \<le> 12"
  shows "match_m (pad2 m) = Some m"
  using nat_le_12_cases [OF assms] unfolding insert_iff empty_iff
  by (elim disjE; simp add: pad2_def digit_char_val digit_char_eq_iff)

lemma match_d_pad2:
  assumes "1 \<le> d" "d \<le> 31"
  shows "match_d (pad2 d) = Some d"
  using nat_le_31_cases [OF assms] unfolding insert_iff empty_iff
  by (elim disjE; simp add: pad2_def digit_char_val digit_char_eq_iff)

lemma days_in_month_le:
  assumes "1 \<le> m" "m \<le> 12"
  shows "days_in_month y m \<le> 31"
  using nat_le_12_cases [OF assms] unfolding insert_iff empty_iff
  by (elim disjE; simp add: days_in_month_def)

lemma parse_date_valid: "parse_date s = Some d \<Longrightarrow> valid_date d"
  by (auto simp: parse_date_def strptime_ymd_def Let_def split: if_splits option.splits)

lemma year_digits_pad4: "1000 \<le> y \<Longrightarrow> year_digits y = pad4 y"
  by (simp add: year_digits_def)

lemma digit_char_not_hyphen: "n < 10 \<Longrightarrow> digit_char n \<noteq> CHR ''-''"
  by (simp add: digit_char_eq_iff)

text \<open>A date of year 1000 or later reads back from what \<^verbatim>\<open>strftime\<close> wrote.\<close>

lemma parse_date_strftime:
  assumes "valid_date d" and "1000 \<le> year d"
  shows "parse_date (strftime_ymd d) = Some d"
proof -
  from assms have y: "year d < 10000" and m: "1 \<le> month d" "month d \<le> 12"
    and dd: "1 \<le> day d" "day d \<le> days_in_month (year d) (month d)"
    by (simp_all add: valid_date_def)
  from dd(2) days_in_month_le [OF m] have d31: "day d \<le> 31" by (rule order_trans)
  have r: "\<lparr>year = year d, month = month d, day = day d\<rparr> = d" by simp
  let ?s = "strftime_ymd d"
  have s4: "?s ! 4 = CHR ''-''" and len: "length ?s = 10"
    and t4: "take 4 ?s = pad4 (year d)"
    and d5: "drop 5 ?s = pad2 (month d) @ CHR ''-'' # pad2 (day d)"
    by (simp_all add: strftime_ymd_def year_digits_pad4 [OF assms(2)] pad4_def pad2_def)
  have tw: "takeWhile (\<lambda>c. c \<noteq> CHR ''-'') (pad2 (month d) @ CHR ''-'' # pad2 (day d)) = pad2 (month d)"
    by (simp add: pad2_def digit_char_not_hyphen)
  have l2: "length (pad2 (month d)) = 2" by (simp add: pad2_def)
  have dr: "drop (Suc 2) (pad2 (month d) @ CHR ''-'' # pad2 (day d)) = pad2 (day d)"
    by (simp add: pad2_def)
  show ?thesis
    unfolding parse_date_def strptime_ymd_def
    by (simp add: s4 len t4 d5 tw l2 dr Let_def match_Y_pad4 [OF y] match_m_pad2 [OF m]
        match_d_pad2 [OF dd(1) d31] r assms(1) del: One_nat_def)
qed

text \<open>A date before year 1000 does not: the year has fewer than four digits.\<close>

lemma parse_date_strftime_small:
  assumes "year d < 1000"
  shows "parse_date (strftime_ymd d) = None"
proof -
  consider "year d < 10" | "10 \<le> year d" "year d < 100" | "100 \<le> year d" "year d < 1000"
    using assms by linarith
  then show ?thesis
  proof cases
    case 1
    then show ?thesis
      by (simp add: parse_date_def strptime_ymd_def strftime_ymd_def year_digits_def pad2_def
          digit_char_not_hyphen Let_def)
  next
    case 2
    then show ?thesis
      by (simp add: parse_date_def strptime_ymd_def strftime_ymd_def year_digits_def pad2_def
          digit_char_not_hyphen Let_def)
  next
    case 3
    then show ?thesis
      by (simp add: parse_date_def strptime_ymd_def strftime_ymd_def year_digits_def pad2_def
          digit_char_not_hyphen Let_def)
  qed
qed

lemma parse_date_strftime_cases:
  assumes "valid_date d"
  shows "parse_date (strftime_ymd d) = None \<or> parse_date (strftime_ymd d) = Some d"
proof (cases "1000 \<le> year d")
  case True
  then show ?thesis using parse_date_strftime [OF assms] by simp
next
  case False
  then show ?thesis using parse_date_strftime_small [of d] by simp
qed

lemma date_less_irrefl: "\<not> date_less a a"
  by (simp add: date_less_def)

lemma date_le_refl: "date_le a a"
  by (simp add: date_le_def date_less_def)

lemma date_le_trans: "date_le a b \<Longrightarrow> date_le b c \<Longrightarrow> date_le a c"
  by (auto simp: date_le_def date_less_def)

lemma date_min_le: "date_le (date_min a b) a \<and> date_le (date_min a b) b"
  by (auto simp: date_min_def date_le_def date_less_def)


lemma date_min_same: "date_min a a = a"
  by (simp add: date_min_def)

lemma valid_date_min: "valid_date a \<Longrightarrow> valid_date b \<Longrightarrow> valid_date (date_min a b)"
  by (simp add: date_min_def)

lemma clamp_date_fst:
  assumes "valid_date today"
  shows "valid_date (fst (clamp_date today ds))"
    and "date_le (fst (clamp_date today ds)) today"
  using assms
  by (auto simp: clamp_date_def date_le_def date_less_irrefl parse_date_valid
      split: option.splits)

lemma clamp_date_snd_cases:
  assumes "valid_date today"
  shows "parse_date (snd (clamp_date today ds)) = None
         \<or> parse_date (snd (clamp_date today ds)) = Some (fst (clamp_date today ds))"
  using parse_date_strftime_cases [OF assms]
  by (auto simp: clamp_date_def split: option.splits)

lemma clamp_date_snd:
  assumes "valid_date today" and "1000 \<le> year today"
  shows "parse_date (snd (clamp_date today ds)) = Some (fst (clamp_date today ds))"
  using parse_date_strftime [OF assms]
  by (auto simp: clamp_date_def split: option.splits)

subsection \<open>The valuation loop as sums over the rows\<close>

lemma holding_type_eq:
  "holding_type today s =
     (case parse_date s of None \<Rightarrow> ''N/A''
      | Some d \<Rightarrow> if days_between today d > 365 then ''Long'' else ''Short'')"
  by (simp add: holding_type_def classify_def Let_def split: option.split)

lemma classify_eq:
  "classify today s p l sh =
     (holding_type today s,
      (if holding_type today s = ''Long'' then l + p else l),
      (if holding_type today s = ''Short'' then sh + p else sh))"
  by (simp add: holding_type_def classify_def Let_def split: option.split)

lemma row_entry_eq:
  "row_entry glp today r =
     \<lparr>e_symbol = symbol r, e_qty = quantity r, e_bp = py_round (buy_price r) 2,
      e_live = py_round (live_val (glp (symbol r))) 2,
      e_invest = py_round (invested r) 2,
      e_current = py_round (current glp r) 2,
      e_profit = py_round (pl glp r) 2,
      e_notes = row_notes r, e_buy_date = buy_date r,
      e_holding_type = holding_type today (buy_date r), e_invalid = (glp (symbol r) = None)\<rparr>"
  by (simp add: row_entry_def valuation_step_def classify_eq Let_def)

lemma valuation_step_eq:
  "valuation_step glp today v r =
     \<lparr>portfolio = portfolio v @ [row_entry glp today r],
      total_invested = total_invested v + invested r,
      total_value = total_value v + current glp r,
      total_long_pl =
        (if holding_type today (buy_date r) = ''Long'' then total_long_pl v + pl glp r
         else total_long_pl v),
      total_short_pl =
        (if holding_type today (buy_date r) = ''Short'' then total_short_pl v + pl glp r
         else total_short_pl v)\<rparr>"
  by (simp add: row_entry_eq) (simp add: valuation_step_def classify_eq Let_def)

lemma foldl_valuation_step:
  "foldl (valuation_step glp today) v rows =
     \<lparr>portfolio = portfolio v @ map (row_entry glp today) rows,
      total_invested = total_invested v + (\<Sum>r\<leftarrow>rows. invested r),
      total_value = total_value v + (\<Sum>r\<leftarrow>rows. current glp r),
      total_long_pl = total_long_pl v +
        (\<Sum>r\<leftarrow>filter (\<lambda>r. holding_type today (buy_date r) = ''Long'') rows. pl glp r),
      total_short_pl = total_short_pl v +
        (\<Sum>r\<leftarrow>filter (\<lambda>r. holding_type today (buy_date r) = ''Short'') rows. pl glp r)\<rparr>"
proof (induction rows arbitrary: v)
  case Nil
  show ?case by simp
next
  case (Cons r rows)
  show ?case
    unfolding foldl_Cons Cons.IH
    by (simp add: valuation_step_eq add.assoc)
qed

lemma valuate_eq:
  "valuate glp today rows =
     \<lparr>portfolio = map (row_entry glp today) rows,
      total_invested = (\<Sum>r\<leftarrow>rows. invested r),
      total_value = (\<Sum>r\<leftarrow>rows. current glp r),
      total_long_pl =
        (\<Sum>r\<leftarrow>filter (\<lambda>r. holding_type today (buy_date r) = ''Long'') rows. pl glp r),
      total_short_pl =
        (\<Sum>r\<leftarrow>filter (\<lambda>r. holding_type today (buy_date r) = ''Short'') rows. pl glp r)\<rparr>"
  by (simp add: valuate_def foldl_valuation_step)

lemma holding_filter_Long:
  "(holding_type today s = ''Long'') =
     (case parse_date s of None \<Rightarrow> False | Some d \<Rightarrow> days_between today d > 365)"
  by (simp add: holding_type_eq split: option.split)

lemma holding_filter_Short:
  "(holding_type today s = ''Short'') =
     (case parse_date s of None \<Rightarrow> False | Some d \<Rightarrow> \<not> days_between today d > 365)"
  by (simp add: holding_type_eq split: option.split)

subsection \<open>Holding period\<close>

text \<open>
  Claim C2. In a valuation pass a position whose stored date parses is classified by
  \<open>days_held = today - date\<close> in whole days: \<^verbatim>\<open>Long\<close> when \<open>days_held > 365\<close> and \<^verbatim>\<open>Short\<close>
  otherwise, so 365 days is \<^verbatim>\<open>Short\<close> and 366 days is \<^verbatim>\<open>Long\<close>. A position whose date does
  not parse gets the third class (the code's \<^verbatim>\<open>N/A\<close>, the specification's Unknown): the sum
  of long profits runs over the \<^verbatim>\<open>Long\<close> rows only and the sum of short profits over the
  \<^verbatim>\<open>Short\<close> rows only, so such a position is in neither, while the invested total and the
  current-value total run over all rows.
\<close>

theorem holding_period_classification:
  "fst (classify today s p l sh) =
     (case parse_date s of
        None \<Rightarrow> ''N/A''
      | Some d \<Rightarrow> if days_between today d > 365 then ''Long'' else ''Short'')
   \<and> map e_holding_type (portfolio (valuate glp today rows)) =
       map (\<lambda>r. case parse_date (buy_date r) of
                  None \<Rightarrow> ''N/A''
                | Some d \<Rightarrow> if days_between today d > 365 then ''Long'' else ''Short'') rows
   \<and> total_long_pl (valuate glp today rows) =
       (\<Sum>r\<leftarrow>filter (\<lambda>r. case parse_date (buy_date r) of
                              None \<Rightarrow> False
                            | Some d \<Rightarrow> days_between today d > 365) rows. pl glp r)
   \<and> total_short_pl (valuate glp today rows) =
       (\<Sum>r\<leftarrow>filter (\<lambda>r. case parse_date (buy_date r) of
                              None \<Rightarrow> False
                            | Some d \<Rightarrow> \<not> days_between today d > 365) rows. pl glp r)
   \<and> total_invested (valuate glp today rows) = (\<Sum>r\<leftarrow>rows. invested r)
   \<and> total_value (valuate glp today rows) = (\<Sum>r\<leftarrow>rows. current glp r)"
  by (simp add: valuate_eq classify_eq row_entry_eq comp_def holding_filter_Long holding_filter_Short)
     (simp add: holding_type_eq)

text \<open>
  On 2024-03-01, with every quote at 100: the position held 365 days is \<^verbatim>\<open>Short\<close>, the one
  held 366 days is \<^verbatim>\<open>Long\<close>, the one without a date is \<^verbatim>\<open>N/A\<close>; its profit of 60 is in
  neither sum, its cost of 40 and value of 100 are in the totals.
\<close>

theorem holding_period_classification_witness:
  "map e_holding_type (portfolio (valuate (\<lambda>s. Some 100) day_2024_03_01 three_rows))
     = [''Short'', ''Long'', ''N/A'']
   \<and> total_short_pl (valuate (\<lambda>s. Some 100) day_2024_03_01 three_rows) = 90
   \<and> total_long_pl (valuate (\<lambda>s. Some 100) day_2024_03_01 three_rows) = 80
   \<and> total_invested (valuate (\<lambda>s. Some 100) day_2024_03_01 three_rows) = 70
   \<and> total_value (valuate (\<lambda>s. Some 100) day_2024_03_01 three_rows) = 300"
  using holding_period_classification [of day_2024_03_01 "[]" 0 0 0 "\<lambda>s. Some 100" three_rows]
  by (simp add: three_rows_def day_2024_03_01_def date_eval pl_def current_def invested_def
      live_val_def)

subsection \<open>Missing quotes\<close>

lemma py_round_zero: "py_round 0 n = 0"
  by (simp add: py_round_def round_half_even_def)

lemma unavailable_row:
  assumes "glp (symbol r) = None"
  shows "current glp r = 0" and "pl glp r = 0 - invested r"
  using assms by (simp_all add: current_def pl_def live_val_def)

lemma sum_list_all_zero: "(\<forall>x\<in>set xs. f x = (0::rat)) \<Longrightarrow> (\<Sum>x\<leftarrow>xs. f x) = 0"
  by (induction xs) simp_all

text \<open>
  Claim C3. The valuation pass has no failing branch: it returns one entry per stored
  position, in order, whatever the quote service answers. For a position whose quote is
  unavailable the current value is 0 and the profit is 0 minus the invested amount (the
  entry shows both rounded to two places), and the entry is flagged invalid. The invested
  total and the current-value total run over all positions, the unavailable ones included
  with value 0; when every lookup fails every entry is flagged and the current-value total
  is 0.
\<close>

theorem price_unavailable_degradation:
  "length (portfolio (valuate glp today rows)) = length rows
   \<and> map e_symbol (portfolio (valuate glp today rows)) = map symbol rows
   \<and> map e_invalid (portfolio (valuate glp today rows)) = map (\<lambda>r. glp (symbol r) = None) rows
   \<and> (\<forall>i < length rows. glp (symbol (rows ! i)) = None \<longrightarrow>
         current glp (rows ! i) = 0
         \<and> pl glp (rows ! i) = 0 - invested (rows ! i)
         \<and> e_current (portfolio (valuate glp today rows) ! i) = 0
         \<and> e_profit (portfolio (valuate glp today rows) ! i) = py_round (0 - invested (rows ! i)) 2
         \<and> e_invalid (portfolio (valuate glp today rows) ! i))
   \<and> total_invested (valuate glp today rows) = (\<Sum>r\<leftarrow>rows. invested r)
   \<and> total_value (valuate glp today rows) = (\<Sum>r\<leftarrow>rows. current glp r)
   \<and> ((\<forall>r \<in> set rows. glp (symbol r) = None) \<longrightarrow>
         list_all e_invalid (portfolio (valuate glp today rows))
         \<and> total_value (valuate glp today rows) = 0
         \<and> total_profit (valuate glp today rows) = 0 - (\<Sum>r\<leftarrow>rows. invested r))"
proof -
  have all_none: "(\<Sum>r\<leftarrow>rows. current glp r) = 0" if "\<forall>r \<in> set rows. glp (symbol r) = None"
    using that by (intro sum_list_all_zero) (simp add: unavailable_row)
  show ?thesis
    by (simp add: valuate_eq row_entry_eq comp_def unavailable_row py_round_zero all_none
        total_profit_def list_all_iff)
qed

text \<open>
  The position of 5 units bought at 10, with no quote: value 0, profit \<open>-50\<close>, flagged, and
  counted in the totals with 50 invested and 0 of current value.
\<close>

theorem price_unavailable_degradation_witness:
  "length (portfolio (valuate no_quotes day_2024_03_01 [five_at_ten])) = 1
   \<and> current no_quotes five_at_ten = 0
   \<and> pl no_quotes five_at_ten = - 50
   \<and> e_current (portfolio (valuate no_quotes day_2024_03_01 [five_at_ten]) ! 0) = 0
   \<and> e_profit (portfolio (valuate no_quotes day_2024_03_01 [five_at_ten]) ! 0) = - 50
   \<and> e_invalid (portfolio (valuate no_quotes day_2024_03_01 [five_at_ten]) ! 0)
   \<and> total_invested (valuate no_quotes day_2024_03_01 [five_at_ten]) = 50
   \<and> total_value (valuate no_quotes day_2024_03_01 [five_at_ten]) = 0
   \<and> total_profit (valuate no_quotes day_2024_03_01 [five_at_ten]) = - 50"
  using price_unavailable_degradation [of no_quotes day_2024_03_01 "[five_at_ten]"]
  by (simp add: five_at_ten_def no_quotes_def invested_def py_round_def round_half_even_def)

subsection \<open>Aggregates\<close>

text \<open>
  Claim C4. The total profit of a pass is the current-value total minus the invested total,
  the two totals being the sums over all positions; and there are positions (here a single
  one whose date does not parse, bought at 1 and quoted at 2) for which the long and short
  profits together are strictly less than the total profit.
\<close>

theorem aggregate_consistency:
  "(\<forall>glp today rows.
      total_profit (valuate glp today rows)
        = total_value (valuate glp today rows) - total_invested (valuate glp today rows)
      \<and> total_profit (valuate glp today rows)
        = (\<Sum>r\<leftarrow>rows. current glp r) - (\<Sum>r\<leftarrow>rows. invested r)
      \<and> pg_total_profit (dashboard_get glp today \<lparr>stocks = rows, watchlist = w, alerts = a\<rparr>)
        = py_round (total_value (valuate glp today rows) - total_invested (valuate glp today rows)) 2)
   \<and> (\<exists>glp today r.
        parse_date (buy_date r) = None
        \<and> map e_holding_type (portfolio (valuate glp today [r])) = [''N/A'']
        \<and> pl glp r \<noteq> 0
        \<and> total_long_pl (valuate glp today [r]) + total_short_pl (valuate glp today [r])
            < total_profit (valuate glp today [r]))"
proof -
  let ?glp = "\<lambda>s::string. Some (2::rat)"
  let ?r = "\<lparr>row_id = 1, symbol = ''C'', quantity = 1, buy_price = 1, buy_date = ''unknown'',
             row_notes = []\<rparr>"
  have ex: "\<exists>glp today r.
        parse_date (buy_date r) = None
        \<and> map e_holding_type (portfolio (valuate glp today [r])) = [''N/A'']
        \<and> pl glp r \<noteq> 0
        \<and> total_long_pl (valuate glp today [r]) + total_short_pl (valuate glp today [r])
            < total_profit (valuate glp today [r])"
    by (rule exI [of _ ?glp], rule exI [of _ day_2024_03_01], rule exI [of _ ?r])
       (simp add: valuate_eq row_entry_eq total_profit_def holding_type_eq parse_date_def
        strptime_ymd_def pl_def current_def invested_def live_val_def)
  show ?thesis
    using ex by (simp add: total_profit_def valuate_eq dashboard_get_def Let_def)
qed

subsection \<open>Alerts\<close>

text \<open>
  Claim C5. For every alert: when the quote is unavailable the alert is not hit, whatever
  the target, and 0 is shown as the live price; when the quote is a price the alert is hit
  exactly when the price is at least the target, so a price equal to the target hits. The
  page's alert list is this, alert by alert.
\<close>

theorem alert_hit:
  "a_hit (alert_step glp (symb, target))
     = (case glp symb of None \<Rightarrow> False | Some live \<Rightarrow> live \<ge> target)
   \<and> a_live (alert_step glp (symb, target))
     = py_round (case glp symb of None \<Rightarrow> 0 | Some live \<Rightarrow> live) 2
   \<and> map a_hit (evaluate_alerts glp alert_rows)
     = map (\<lambda>(symb, target). case glp symb of None \<Rightarrow> False | Some live \<Rightarrow> live \<ge> target)
         alert_rows
   \<and> pg_alerts (dashboard_get glp today d) = map (alert_step glp) (alerts d)"
  by (auto simp: alert_step_def evaluate_alerts_def dashboard_get_def Let_def
      split: option.splits prod.splits)

text \<open>A target of 100 with a quote of exactly 100 is hit; with no quote it is not.\<close>

theorem alert_hit_witness:
  "a_hit (alert_step (\<lambda>s. Some 100) (''AAPL'', 100))
   \<and> \<not> a_hit (alert_step no_quotes (''AAPL'', 100))
   \<and> a_live (alert_step no_quotes (''AAPL'', 100)) = 0"
  using alert_hit [of "\<lambda>s. Some 100" "''AAPL''" 100 "[]" day_2024_03_01 empty_db]
    alert_hit [of no_quotes "''AAPL''" 100 "[]" day_2024_03_01 empty_db]
  by (simp add: no_quotes_def py_round_zero)

subsection \<open>Recording a purchase\<close>

lemma sqlite_integer_float: "sqlite_integer n \<Longrightarrow> float_of_int_ok n"
  by (auto simp: sqlite_integer_def float_of_int_ok_def abs_less_iff)

lemma sqlite_integer_diff_float:
  "sqlite_integer a \<Longrightarrow> sqlite_integer (a + q) \<Longrightarrow> float_of_int_ok q"
  by (auto simp: sqlite_integer_def float_of_int_ok_def abs_less_iff)

lemma find_map_update:
  assumes "find P rows = Some row" "\<And>r. P r \<Longrightarrow> P (g r)"
  shows "find P (map (\<lambda>r. if P r then g r else r) rows) = Some (g row)"
  using assms by (induction rows) (auto split: if_splits)

lemma select_updated_rows:
  assumes "select_stock sy rows = Some row"
  shows "select_stock sy (updated_rows q bp ds n sy rows)
           = Some (row\<lparr>quantity := q, buy_price := bp, buy_date := ds, row_notes := n\<rparr>)"
  using find_map_update [of "\<lambda>r. symbol r = sy" rows row
      "\<lambda>r. r\<lparr>quantity := q, buy_price := bp, buy_date := ds, row_notes := n\<rparr>"] assms
  by (simp add: select_stock_def updated_rows_def)

lemma find_append_new: "find P rows = None \<Longrightarrow> P x \<Longrightarrow> find P (rows @ [x]) = Some x"
  by (induction rows) (auto split: if_splits)

lemma select_inserted_rows:
  assumes "select_stock sy rows = None"
  shows "select_stock sy (inserted_rows sy q bp ds n rows)
           = Some \<lparr>row_id = next_id rows, symbol = sy, quantity = q, buy_price = bp,
                   buy_date = ds, row_notes = n\<rparr>"
  using assms by (simp add: select_stock_def inserted_rows_def find_append_new)

text \<open>
  The merge, when no integer is out of range: the stored quantity and the new total fit
  SQLite's INTEGER, and the total is not zero.
\<close>

lemma merge_purchase_ok:
  assumes "quantity row + p_quantity p \<noteq> 0"
    and "sqlite_integer (quantity row)"
    and "sqlite_integer (quantity row + p_quantity p)"
  shows "merge_purchase p bdate row d =
     (Redirect ''/'',
      d\<lparr>stocks := updated_rows (quantity row + p_quantity p)
         ((buy_price row * of_int (quantity row) + p_buy_price p * of_int (p_quantity p))
            / of_int (quantity row + p_quantity p))
         (strftime_ymd
           (date_min (case parse_date (buy_date row) of Some od \<Rightarrow> od | None \<Rightarrow> bdate) bdate))
         (p_notes p) (p_symbol p) (stocks d)\<rparr>)"
  using assms(1,3) sqlite_integer_float [OF assms(2)] sqlite_integer_float [OF assms(3)]
    sqlite_integer_diff_float [OF assms(2,3)]
  by (simp add: merge_purchase_def update_stock_def Let_def)

lemma merge_purchase_snd:
  "snd (merge_purchase p bdate row d) = d
   \<or> snd (merge_purchase p bdate row d) =
       d\<lparr>stocks := updated_rows (quantity row + p_quantity p)
         ((buy_price row * of_int (quantity row) + p_buy_price p * of_int (p_quantity p))
            / of_int (quantity row + p_quantity p))
         (strftime_ymd
           (date_min (case parse_date (buy_date row) of Some od \<Rightarrow> od | None \<Rightarrow> bdate) bdate))
         (p_notes p) (p_symbol p) (stocks d)\<rparr>"
  by (simp add: merge_purchase_def update_stock_def Let_def)

lemma dashboard_post_merge:
  assumes "read_purchase py_int py_float f = Inr p"
    and "select_stock (p_symbol p) (stocks d) = Some row"
    and "quantity row + p_quantity p \<noteq> 0"
    and "sqlite_integer (quantity row)"
    and "sqlite_integer (quantity row + p_quantity p)"
  shows "dashboard_post py_int py_float today f d =
     (Redirect ''/'',
      d\<lparr>stocks := updated_rows (quantity row + p_quantity p)
         ((buy_price row * of_int (quantity row) + p_buy_price p * of_int (p_quantity p))
            / of_int (quantity row + p_quantity p))
         (strftime_ymd
           (date_min (case parse_date (buy_date row) of
                        Some od \<Rightarrow> od
                      | None \<Rightarrow> fst (clamp_date today (p_buy_date_str p)))
                     (fst (clamp_date today (p_buy_date_str p)))))
         (p_notes p) (p_symbol p) (stocks d)\<rparr>)"
  using assms(1,2)
  by (cases "clamp_date today (p_buy_date_str p)")
     (simp add: dashboard_post_def merge_purchase_ok [OF assms(3,4,5)] split: option.split)

lemma dashboard_post_zero_division:
  assumes "read_purchase py_int py_float f = Inr p"
    and "select_stock (p_symbol p) (stocks d) = Some row"
    and "quantity row + p_quantity p = 0"
    and "sqlite_integer (quantity row)"
  shows "dashboard_post py_int py_float today f d = (Raised ZeroDivisionError, d)"
proof -
  have s: "sqlite_integer (quantity row + p_quantity p)"
    using assms(3) by (simp add: sqlite_integer_def)
  have "float_of_int_ok (quantity row)" "float_of_int_ok (p_quantity p)"
    "float_of_int_ok (quantity row + p_quantity p)"
    using sqlite_integer_float [OF assms(4)] sqlite_integer_diff_float [OF assms(4) s]
      sqlite_integer_float [OF s] by simp_all
  then show ?thesis
    using assms(1,2,3)
    by (cases "clamp_date today (p_buy_date_str p)")
       (simp add: dashboard_post_def merge_purchase_def Let_def)
qed

lemma dashboard_post_insert:
  assumes "read_purchase py_int py_float f = Inr p"
    and "select_stock (p_symbol p) (stocks d) = None"
    and "sqlite_integer (p_quantity p)"
  shows "dashboard_post py_int py_float today f d =
     (Redirect ''/'',
      d\<lparr>stocks := inserted_rows (p_symbol p) (p_quantity p) (p_buy_price p)
                      (snd (clamp_date today (p_buy_date_str p))) (p_notes p) (stocks d)\<rparr>)"
  using assms
  by (cases "clamp_date today (p_buy_date_str p)")
     (simp add: dashboard_post_def insert_stock_def)

lemma dashboard_post_overflow:
  assumes "read_purchase py_int py_float f = Inr p"
    and "select_stock (p_symbol p) (stocks d) = None"
    and "\<not> sqlite_integer (p_quantity p)"
  shows "dashboard_post py_int py_float today f d = (Raised OverflowError, d)"
  using assms
  by (cases "clamp_date today (p_buy_date_str p)")
     (simp add: dashboard_post_def insert_stock_def)

lemma dashboard_post_error:
  assumes "read_purchase py_int py_float f = Inl e"
  shows "dashboard_post py_int py_float today f d = (Raised e, d)"
  using assms by (simp add: dashboard_post_def)

lemma read_purchase_no_date:
  assumes "f ''buy_date'' = None"
  shows "read_purchase py_int py_float f = Inl BadRequestKeyError
         \<or> read_purchase py_int py_float f = Inl ValueError"
  using assms by (simp add: read_purchase_def split: option.split)

lemmas form_eval =
  read_purchase_def decimal_int_def decimal_float_def is_digit_def digit_val_def
  strip_def upper_def upper_char_def is_space_def char_of_eq_iff

lemma example_dates:
  "valid_date day_2024_03_01"
  "parse_date ''2020-01-01'' = Some day_2020_01_01"
  "parse_date ''2021-01-01'' = Some day_2021_01_01"
  "parse_date ''01/01/2021'' = None"
  "strftime_ymd day_2020_01_01 = ''2020-01-01''"
  "strftime_ymd day_2024_03_01 = ''2024-03-01''"
  "date_min day_2021_01_01 day_2020_01_01 = day_2020_01_01"
  "clamp_date day_2024_03_01 ''2020-01-01'' = (day_2020_01_01, ''2020-01-01'')"
  "1000 \<le> year day_2024_03_01"
  "1000 \<le> year day_2020_01_01"
  by (simp_all add: day_2024_03_01_def day_2020_01_01_def day_2021_01_01_def clamp_date_def
      date_eval char_of_eq_iff)

lemma example_dates_0999:
  "parse_date ''0999-01-01'' = Some day_0999_01_01"
  "parse_date ''999-01-01'' = None"
  "strftime_ymd day_0999_01_01 = ''999-01-01''"
  "date_min day_2021_01_01 day_0999_01_01 = day_0999_01_01"
  "date_min day_0999_01_01 day_0999_01_01 = day_0999_01_01"
  "date_min day_2020_01_01 day_2020_01_01 = day_2020_01_01"
  "date_less day_0999_01_01 day_2021_01_01"
  "date_le day_0999_01_01 day_2024_03_01"
  "clamp_date day_2024_03_01 ''0999-01-01'' = (day_0999_01_01, ''0999-01-01'')"
  by (simp_all add: day_2024_03_01_def day_2020_01_01_def day_2021_01_01_def
      day_0999_01_01_def clamp_date_def date_eval char_of_eq_iff)

lemma read_buy_10_at_200: "read_purchase decimal_int decimal_float buy_10_at_200 = Inr bought_200"
  by (simp add: buy_10_at_200_def bought_200_def form_eval)

lemma read_buy_2_63_at_200:
  "read_purchase decimal_int decimal_float buy_2_63_at_200
     = Inr (bought_200\<lparr>p_quantity := 2 ^ 63\<rparr>)"
  by (simp add: buy_2_63_at_200_def buy_10_at_200_def bought_200_def form_eval)

lemma read_buy_dated_0999:
  "read_purchase decimal_int decimal_float buy_dated_0999
     = Inr (bought_200\<lparr>p_buy_date_str := ''0999-01-01''\<rparr>)"
  by (simp add: buy_dated_0999_def buy_10_at_200_def bought_200_def form_eval)





subsection \<open>The date of a position\<close>

lemma post_buy_dated_0999:
  "dashboard_post decimal_int decimal_float day_2024_03_01 buy_dated_0999 aapl_db
     = (Redirect ''/'',
        \<lparr>stocks = [\<lparr>row_id = 1, symbol = ''AAPL'', quantity = 20, buy_price = 150,
                     buy_date = ''999-01-01'', row_notes = []\<rparr>],
         watchlist = [], alerts = []\<rparr>)"
  by (simp add: read_buy_dated_0999 dashboard_post_def merge_purchase_def update_stock_def
      updated_rows_def sqlite_integer_def float_of_int_ok_def Let_def example_dates
      example_dates_0999 select_stock_def aapl_db_def aapl_10_at_100_def bought_200_def)




text \<open>
  Claim C10, for dates of year 1000 or later and within the integers the store holds.
  When the stored date of the existing position does not parse, the parse raises nothing:
  the stored date stands for the date of the purchase, so the position's date becomes the
  date of the purchase after \<open>clamp_date\<close>, and reads back as that date when it is of year
  1000 or later.
\<close>

theorem unparseable_stored_date:
  assumes "valid_date today"
    and "read_purchase py_int py_float f = Inr p"
    and "select_stock (p_symbol p) (stocks d) = Some row"
    and "quantity row + p_quantity p \<noteq> 0"
    and "sqlite_integer (quantity row)"
    and "sqlite_integer (quantity row + p_quantity p)"
    and "parse_date (buy_date row) = None"
    and "1000 \<le> year (fst (clamp_date today (p_buy_date_str p)))"
  shows "\<exists>d' row'.
           dashboard_post py_int py_float today f d = (Redirect ''/'', d')
           \<and> select_stock (p_symbol p) (stocks d') = Some row'
           \<and> buy_date row' = strftime_ymd (fst (clamp_date today (p_buy_date_str p)))
           \<and> parse_date (buy_date row') = Some (fst (clamp_date today (p_buy_date_str p)))"
  using parse_date_strftime [OF clamp_date_fst(1) [OF assms(1)] assms(8)]
  by (simp add: dashboard_post_merge [OF assms(2,3,4,5,6)] select_updated_rows [OF assms(3)]
      assms(7) date_min_same)

text \<open>A purchase dated 2020-01-01 on the position whose date column reads 01/01/2021.\<close>

theorem unparseable_stored_date_witness:
  "parse_date (buy_date (hd (stocks undated_db))) = None
   \<and> (\<exists>d' row'.
        dashboard_post decimal_int decimal_float day_2024_03_01 buy_10_at_200 undated_db
          = (Redirect ''/'', d')
        \<and> select_stock ''AAPL'' (stocks d') = Some row'
        \<and> buy_date row' = ''2020-01-01'')"
proof -
  have sel: "select_stock (p_symbol bought_200) (stocks undated_db) = Some (hd (stocks undated_db))"
    by (simp add: select_stock_def bought_200_def undated_db_def)
  have nz: "quantity (hd (stocks undated_db)) + p_quantity bought_200 \<noteq> 0"
    by (simp add: bought_200_def undated_db_def)
  have s0: "sqlite_integer (quantity (hd (stocks undated_db)))"
    by (simp add: undated_db_def sqlite_integer_def)
  have s1: "sqlite_integer (quantity (hd (stocks undated_db)) + p_quantity bought_200)"
    by (simp add: bought_200_def undated_db_def sqlite_integer_def)
  have old: "parse_date (buy_date (hd (stocks undated_db))) = None"
    by (simp add: undated_db_def example_dates)
  have new: "p_buy_date_str bought_200 = ''2020-01-01''" "p_symbol bought_200 = ''AAPL''"
    by (simp_all add: bought_200_def)
  have y: "1000 \<le> year (fst (clamp_date day_2024_03_01 (p_buy_date_str bought_200)))"
    by (simp add: new example_dates)
  show ?thesis
    using unparseable_stored_date [OF example_dates(1) read_buy_10_at_200 sel nz s0 s1 old y]
      old
    by (auto simp: new example_dates)
qed

text \<open>
  The claim as the specification words it holds for every such merge. On the position
  whose date column reads 01/01/2021, a purchase of \<open>2 ^ 63\<close> units raises
  \<^verbatim>\<open>OverflowError\<close> and leaves the position as it was; and a purchase dated 0999-01-01 is
  merged, but the position's date is written \<^verbatim>\<open>999-01-01\<close>, which reads back as no date and
  not as the date of the purchase.
\<close>

theorem unparseable_stored_date_counterexample:
  "parse_date (buy_date (hd (stocks undated_db))) = None
   \<and> dashboard_post decimal_int decimal_float day_2024_03_01 buy_2_63_at_200 undated_db
       = (Raised OverflowError, undated_db)
   \<and> clamp_date day_2024_03_01 ''0999-01-01'' = (day_0999_01_01, ''0999-01-01'')
   \<and> dashboard_post decimal_int decimal_float day_2024_03_01 buy_dated_0999 undated_db
       = (Redirect ''/'',
          \<lparr>stocks = [\<lparr>row_id = 1, symbol = ''AAPL'', quantity = 20, buy_price = 150,
                       buy_date = ''999-01-01'', row_notes = []\<rparr>],
           watchlist = [], alerts = []\<rparr>)
   \<and> parse_date ''999-01-01'' = None"
  by (simp add: read_buy_2_63_at_200 read_buy_dated_0999 example_dates_0999 example_dates
      dashboard_post_def merge_purchase_def update_stock_def updated_rows_def
      sqlite_integer_def float_of_int_ok_def Let_def select_stock_def undated_db_def
      bought_200_def)

lemma updated_rows_buy_dates:
  "r' \<in> set (updated_rows q bp ds n sy rows) \<Longrightarrow> buy_date r' = ds \<or> r' \<in> set rows"
  by (auto simp: updated_rows_def)

lemma inserted_rows_buy_dates:
  "r' \<in> set (inserted_rows sy q bp ds n rows) \<Longrightarrow> buy_date r' = ds \<or> r' \<in> set rows"
  by (auto simp: inserted_rows_def)

text \<open>
  The rows after a request: a row that was there before, or a row whose date is the one
  the request wrote, which is the string of the new position or \<^verbatim>\<open>strftime\<close> of the merged
  date.
\<close>

lemma dashboard_post_rows:
  assumes "r' \<in> set (stocks (snd (dashboard_post py_int py_float today f d)))"
  shows "r' \<in> set (stocks d)
         \<or> (\<exists>p. read_purchase py_int py_float f = Inr p
                \<and> (buy_date r' = snd (clamp_date today (p_buy_date_str p))
                    \<or> (\<exists>row. select_stock (p_symbol p) (stocks d) = Some row
                         \<and> buy_date r' =
                             strftime_ymd
                               (date_min (case parse_date (buy_date row) of
                                            Some od \<Rightarrow> od
                                          | None \<Rightarrow> fst (clamp_date today (p_buy_date_str p)))
                                         (fst (clamp_date today (p_buy_date_str p)))))))"
proof (cases "read_purchase py_int py_float f")
  case (Inl e)
  then show ?thesis using assms by (simp add: dashboard_post_error)
next
  case (Inr p)
  obtain bd bs where c: "clamp_date today (p_buy_date_str p) = (bd, bs)"
    by (cases "clamp_date today (p_buy_date_str p)")
  show ?thesis
  proof (cases "select_stock (p_symbol p) (stocks d)")
    case None
    show ?thesis
    proof (cases "sqlite_integer (p_quantity p)")
      case True
      from assms have "buy_date r' = snd (clamp_date today (p_buy_date_str p)) \<or> r' \<in> set (stocks d)"
        by (simp add: dashboard_post_insert [OF Inr None True] inserted_rows_buy_dates)
      then show ?thesis using Inr by auto
    next
      case False
      then show ?thesis using assms by (simp add: dashboard_post_overflow [OF Inr None])
    qed
  next
    case (Some row)
    let ?bd = "fst (clamp_date today (p_buy_date_str p))"
    have post: "dashboard_post py_int py_float today f d = merge_purchase p ?bd row d"
      using Inr Some by (cases "clamp_date today (p_buy_date_str p)") (simp add: dashboard_post_def)
    from merge_purchase_snd [of p ?bd row d] assms
    have "r' \<in> set (stocks d)
          \<or> buy_date r' =
              strftime_ymd
                (date_min (case parse_date (buy_date row) of Some od \<Rightarrow> od | None \<Rightarrow> ?bd) ?bd)"
      unfolding post by (auto dest: updated_rows_buy_dates)
    then show ?thesis using Inr Some by blast
  qed
qed

text \<open>
  No stored date that reads back as a date is after \<open>now\<close>: kept by a request made on a
  day \<open>today\<close> not after \<open>now\<close>, whatever the request, and so by every history of such
  requests.
\<close>

lemma dashboard_post_no_future_date:
  assumes v: "valid_date today"
    and n: "date_le today now"
    and inv: "\<forall>r \<in> set (stocks d). \<forall>x. parse_date (buy_date r) = Some x \<longrightarrow> date_le x now"
  shows "\<forall>r \<in> set (stocks (snd (dashboard_post py_int py_float today f d))).
           \<forall>x. parse_date (buy_date r) = Some x \<longrightarrow> date_le x now"
proof (intro ballI allI impI)
  fix r' x
  assume r: "r' \<in> set (stocks (snd (dashboard_post py_int py_float today f d)))"
    and x: "parse_date (buy_date r') = Some x"
  from dashboard_post_rows [OF r] show "date_le x now"
  proof (elim disjE exE conjE)
    assume "r' \<in> set (stocks d)"
    then show ?thesis using inv x by blast
  next
    fix p
    assume "buy_date r' = snd (clamp_date today (p_buy_date_str p))"
    then have "x = fst (clamp_date today (p_buy_date_str p))"
      using clamp_date_snd_cases [OF v, of "p_buy_date_str p"] x by simp
    then show ?thesis
      using clamp_date_fst(2) [OF v, of "p_buy_date_str p"] n by (blast intro: date_le_trans)
  next
    fix p row
    let ?bd = "fst (clamp_date today (p_buy_date_str p))"
    let ?od = "case parse_date (buy_date row) of Some od \<Rightarrow> od | None \<Rightarrow> ?bd"
    assume b: "buy_date r' = strftime_ymd (date_min ?od ?bd)"
    have vo: "valid_date ?od"
      using clamp_date_fst(1) [OF v, of "p_buy_date_str p"]
      by (auto split: option.split intro: parse_date_valid)
    have "valid_date (date_min ?od ?bd)"
      using vo clamp_date_fst(1) [OF v] by (rule valid_date_min)
    from parse_date_strftime_cases [OF this] b x have "x = date_min ?od ?bd"
      by simp
    moreover have "date_le (date_min ?od ?bd) ?bd"
      using date_min_le [of ?od ?bd] by simp
    ultimately show ?thesis
      using clamp_date_fst(2) [OF v, of "p_buy_date_str p"] n by (blast intro: date_le_trans)
  qed
qed

lemma dashboard_posts_no_future_date:
  assumes "\<forall>(today, f) \<in> set requests. valid_date today \<and> date_le today now"
    and "\<forall>r \<in> set (stocks d). \<forall>x. parse_date (buy_date r) = Some x \<longrightarrow> date_le x now"
  shows "\<forall>r \<in> set (stocks (dashboard_posts py_int py_float requests d)).
           \<forall>x. parse_date (buy_date r) = Some x \<longrightarrow> date_le x now"
  using assms
proof (induction requests arbitrary: d)
  case Nil
  then show ?case by simp
next
  case (Cons rq requests)
  obtain today f where rq: "rq = (today, f)" by (cases rq)
  from Cons.prems(1) rq have t: "valid_date today" "date_le today now"
    and rest: "\<forall>(today, f) \<in> set requests. valid_date today \<and> date_le today now"
    by auto
  have "\<forall>r \<in> set (stocks (snd (dashboard_post py_int py_float today f d))).
          \<forall>x. parse_date (buy_date r) = Some x \<longrightarrow> date_le x now"
    using t Cons.prems(2) by (rule dashboard_post_no_future_date)
  with rest show ?case
    unfolding rq dashboard_posts.simps by (rule Cons.IH)
qed

text \<open>
  Claim C7, as the code has it. A form without the field \<^verbatim>\<open>buy_date\<close> is refused, with the
  400 of the missing field (or the \<^verbatim>\<open>ValueError\<close> of a number read before it), and nothing
  is recorded. A form that reads as a purchase is recorded with the date \<open>today\<close> when its
  date string does not parse (malformed or empty) or is a date strictly after \<open>today\<close>,
  and with the date of the form otherwise; that date is never after \<open>today\<close>. A new
  position, of a quantity SQLite holds, stores that date: \<open>today\<close> written out in the
  first case, the string of the form as it was supplied in the second, and either reads
  back as the date. A merge, within the integers SQLite holds, stores \<^verbatim>\<open>strftime\<close> of the
  minimum of that date and the stored one, which is not after \<open>today\<close> and reads back as
  that minimum when it is of year 1000 or later. And no request makes a stored date a
  future one: a database in which no stored date reads back as a date after some day
  \<open>now\<close>, on or after \<open>today\<close>, stays so (and so through every history of requests,
  \<open>dashboard_posts_no_future_date\<close>).
\<close>

theorem purchase_date_clamp:
  assumes "valid_date today"
    and "1000 \<le> year today"
  shows "(f ''buy_date'' = None \<longrightarrow>
            dashboard_post py_int py_float today f d = (Raised BadRequestKeyError, d)
            \<or> dashboard_post py_int py_float today f d = (Raised ValueError, d))
         \<and> (read_purchase py_int py_float f = Inr p \<longrightarrow>
              clamp_date today (p_buy_date_str p) =
                (case parse_date (p_buy_date_str p) of
                   None \<Rightarrow> (today, strftime_ymd today)
                 | Some bd \<Rightarrow> if date_less today bd then (today, strftime_ymd today)
                             else (bd, p_buy_date_str p))
              \<and> date_le (fst (clamp_date today (p_buy_date_str p))) today
              \<and> parse_date (snd (clamp_date today (p_buy_date_str p)))
                  = Some (fst (clamp_date today (p_buy_date_str p)))
              \<and> (select_stock (p_symbol p) (stocks d) = None \<and> sqlite_integer (p_quantity p) \<longrightarrow>
                   (\<exists>d' row'.
                      dashboard_post py_int py_float today f d = (Redirect ''/'', d')
                      \<and> select_stock (p_symbol p) (stocks d') = Some row'
                      \<and> buy_date row' = snd (clamp_date today (p_buy_date_str p))))
              \<and> (\<forall>row. select_stock (p_symbol p) (stocks d) = Some row
                        \<and> quantity row + p_quantity p \<noteq> 0
                        \<and> sqlite_integer (quantity row)
                        \<and> sqlite_integer (quantity row + p_quantity p) \<longrightarrow>
                   (\<exists>d' row' final_date.
                      dashboard_post py_int py_float today f d = (Redirect ''/'', d')
                      \<and> select_stock (p_symbol p) (stocks d') = Some row'
                      \<and> final_date =
                          date_min (case parse_date (buy_date row) of
                                      Some od \<Rightarrow> od
                                    | None \<Rightarrow> fst (clamp_date today (p_buy_date_str p)))
                                   (fst (clamp_date today (p_buy_date_str p)))
                      \<and> buy_date row' = strftime_ymd final_date
                      \<and> date_le final_date today
                      \<and> (1000 \<le> year final_date \<longrightarrow>
                           parse_date (buy_date row') = Some final_date))))
         \<and> (date_le today now
              \<and> (\<forall>r \<in> set (stocks d). \<forall>x. parse_date (buy_date r) = Some x \<longrightarrow> date_le x now) \<longrightarrow>
              (\<forall>r \<in> set (stocks (snd (dashboard_post py_int py_float today f d))).
                 \<forall>x. parse_date (buy_date r) = Some x \<longrightarrow> date_le x now))"
proof -
  let ?bd = "fst (clamp_date today (p_buy_date_str p))"
  note c = clamp_date_fst [OF assms(1), of "p_buy_date_str p"]
  have k: "dashboard_post py_int py_float today f d = (Raised BadRequestKeyError, d)
           \<or> dashboard_post py_int py_float today f d = (Raised ValueError, d)"
    if "f ''buy_date'' = None"
    using read_purchase_no_date [where f = f and py_int = py_int and py_float = py_float, OF that]
    by (auto simp: dashboard_post_error)
  have a: "clamp_date today (p_buy_date_str p) =
           (case parse_date (p_buy_date_str p) of
              None \<Rightarrow> (today, strftime_ymd today)
            | Some bd \<Rightarrow> if date_less today bd then (today, strftime_ymd today)
                        else (bd, p_buy_date_str p))"
    by (simp add: clamp_date_def)
  have s: "parse_date (snd (clamp_date today (p_buy_date_str p))) = Some ?bd"
    by (rule clamp_date_snd [OF assms])
  have b: "\<exists>d' row'.
             dashboard_post py_int py_float today f d = (Redirect ''/'', d')
             \<and> select_stock (p_symbol p) (stocks d') = Some row'
             \<and> buy_date row' = snd (clamp_date today (p_buy_date_str p))"
    if "read_purchase py_int py_float f = Inr p"
      "select_stock (p_symbol p) (stocks d) = None" "sqlite_integer (p_quantity p)"
    by (simp add: dashboard_post_insert [OF that] select_inserted_rows [OF that(2)])
  have m: "\<exists>d' row' final_date.
             dashboard_post py_int py_float today f d = (Redirect ''/'', d')
             \<and> select_stock (p_symbol p) (stocks d') = Some row'
             \<and> final_date =
                 date_min (case parse_date (buy_date row) of Some od \<Rightarrow> od | None \<Rightarrow> ?bd) ?bd
             \<and> buy_date row' = strftime_ymd final_date
             \<and> date_le final_date today
             \<and> (1000 \<le> year final_date \<longrightarrow> parse_date (buy_date row') = Some final_date)"
    if "read_purchase py_int py_float f = Inr p"
      "select_stock (p_symbol p) (stocks d) = Some row" "quantity row + p_quantity p \<noteq> 0"
      "sqlite_integer (quantity row)" "sqlite_integer (quantity row + p_quantity p)"
    for row
  proof -
    let ?od = "case parse_date (buy_date row) of Some od \<Rightarrow> od | None \<Rightarrow> ?bd"
    have vo: "valid_date ?od"
      using c(1) by (auto split: option.split intro: parse_date_valid)
    have vm: "valid_date (date_min ?od ?bd)"
      using vo c(1) by (rule valid_date_min)
    have le: "date_le (date_min ?od ?bd) today"
      using date_min_le [of ?od ?bd] c(2) by (blast intro: date_le_trans)
    have rb: "parse_date (strftime_ymd (date_min ?od ?bd)) = Some (date_min ?od ?bd)"
      if "1000 \<le> year (date_min ?od ?bd)"
      using vm that by (rule parse_date_strftime)
    show ?thesis
      using le rb
      by (simp add: dashboard_post_merge [OF that] select_updated_rows [OF that(2)])
  qed
  have i: "\<forall>r \<in> set (stocks (snd (dashboard_post py_int py_float today f d))).
             \<forall>x. parse_date (buy_date r) = Some x \<longrightarrow> date_le x now"
    if "date_le today now"
      "\<forall>r \<in> set (stocks d). \<forall>x. parse_date (buy_date r) = Some x \<longrightarrow> date_le x now"
    using dashboard_post_no_future_date [OF assms(1) that] .
  show ?thesis
    using k a c(2) s b m i by blast
qed

text \<open>
  The example of the specification: on 2024-03-01 a purchase dated one year later,
  2025-03-01, opens a position dated 2024-03-01. A date that does not parse, and the empty
  string, give the same; a date in the past is kept as it was typed. The form without a
  date field is refused.
\<close>

theorem purchase_date_clamp_witness:
  "(\<exists>d' row'.
      dashboard_post decimal_int decimal_float day_2024_03_01
        (buy_10_at_200(''buy_date'' \<mapsto> ''2025-03-01'')) empty_db = (Redirect ''/'', d')
      \<and> select_stock ''AAPL'' (stocks d') = Some row'
      \<and> buy_date row' = ''2024-03-01'')
   \<and> clamp_date day_2024_03_01 ''2025-03-01'' = (day_2024_03_01, ''2024-03-01'')
   \<and> clamp_date day_2024_03_01 ''next week'' = (day_2024_03_01, ''2024-03-01'')
   \<and> clamp_date day_2024_03_01 [] = (day_2024_03_01, ''2024-03-01'')
   \<and> clamp_date day_2024_03_01 ''2020-1-1'' = (day_2020_01_01, ''2020-1-1'')
   \<and> (\<exists>d' row'.
      dashboard_post decimal_int decimal_float day_2024_03_01 buy_10_at_200 aapl_db
        = (Redirect ''/'', d')
      \<and> select_stock ''AAPL'' (stocks d') = Some row'
      \<and> buy_date row' = ''2020-01-01'')
   \<and> buy_without_date ''buy_date'' = None
   \<and> fst (dashboard_post decimal_int decimal_float day_2024_03_01 buy_without_date aapl_db)
       \<noteq> Redirect ''/''
   \<and> snd (dashboard_post decimal_int decimal_float day_2024_03_01 buy_without_date aapl_db)
       = aapl_db"
proof -
  let ?f = "buy_10_at_200(''buy_date'' \<mapsto> ''2025-03-01'')"
  let ?p = "bought_200\<lparr>p_buy_date_str := ''2025-03-01''\<rparr>"
  have rd: "read_purchase decimal_int decimal_float ?f = Inr ?p"
    by (simp add: buy_10_at_200_def bought_200_def form_eval)
  have cl: "clamp_date day_2024_03_01 ''2025-03-01'' = (day_2024_03_01, ''2024-03-01'')"
    "clamp_date day_2024_03_01 ''next week'' = (day_2024_03_01, ''2024-03-01'')"
    "clamp_date day_2024_03_01 [] = (day_2024_03_01, ''2024-03-01'')"
    "clamp_date day_2024_03_01 ''2020-1-1'' = (day_2020_01_01, ''2020-1-1'')"
    by (simp_all add: day_2024_03_01_def day_2020_01_01_def clamp_date_def date_eval
        char_of_eq_iff)
  have sel: "select_stock (p_symbol ?p) (stocks empty_db) = None"
    "sqlite_integer (p_quantity ?p)"
    by (simp_all add: select_stock_def empty_db_def bought_200_def sqlite_integer_def)
  have sy: "p_symbol ?p = ''AAPL''" "p_buy_date_str ?p = ''2025-03-01''"
    "p_symbol bought_200 = ''AAPL''" "p_buy_date_str bought_200 = ''2020-01-01''"
    by (simp_all add: bought_200_def)
  have mg: "select_stock (p_symbol bought_200) (stocks aapl_db) = Some aapl_10_at_100"
    "quantity aapl_10_at_100 + p_quantity bought_200 \<noteq> 0"
    "sqlite_integer (quantity aapl_10_at_100)"
    "sqlite_integer (quantity aapl_10_at_100 + p_quantity bought_200)"
    "parse_date (buy_date aapl_10_at_100) = Some day_2021_01_01"
    by (simp_all add: select_stock_def bought_200_def aapl_10_at_100_def aapl_db_def
        sqlite_integer_def example_dates)
  have nd: "buy_without_date ''buy_date'' = None"
    by (simp add: buy_without_date_def)
  have one: "(\<exists>d' row'.
      dashboard_post decimal_int decimal_float day_2024_03_01 ?f empty_db = (Redirect ''/'', d')
      \<and> select_stock ''AAPL'' (stocks d') = Some row'
      \<and> buy_date row' = ''2024-03-01'')"
    using purchase_date_clamp [OF example_dates(1) example_dates(9),
        where py_int = decimal_int and py_float = decimal_float and f = ?f and p = ?p
          and d = empty_db and now = day_2024_03_01]
      rd sel
    by (auto simp: sy cl)
  have two: "(\<exists>d' row'.
      dashboard_post decimal_int decimal_float day_2024_03_01 buy_10_at_200 aapl_db
        = (Redirect ''/'', d')
      \<and> select_stock ''AAPL'' (stocks d') = Some row'
      \<and> buy_date row' = ''2020-01-01'')"
    using purchase_date_clamp [OF example_dates(1) example_dates(9),
        where py_int = decimal_int and py_float = decimal_float and f = buy_10_at_200
          and p = bought_200 and d = aapl_db and now = day_2024_03_01]
      read_buy_10_at_200 mg
    by (auto simp: sy example_dates)
  have three: "fst (dashboard_post decimal_int decimal_float day_2024_03_01 buy_without_date aapl_db)
       \<noteq> Redirect ''/''"
    "snd (dashboard_post decimal_int decimal_float day_2024_03_01 buy_without_date aapl_db)
       = aapl_db"
    using purchase_date_clamp [OF example_dates(1) example_dates(9),
        where py_int = decimal_int and py_float = decimal_float and f = buy_without_date
          and p = bought_200 and d = aapl_db and now = day_2024_03_01]
      nd
    by auto
  show ?thesis
    using one two three nd cl by simp
qed

text \<open>
  The claim as the specification words it takes a missing date for today's. The form
  without the field \<^verbatim>\<open>buy_date\<close> raises the 400 of \<^verbatim>\<open>request.form["buy_date"]\<close> and opens no
  position. And a date before today is not always stored as supplied: the purchase dated
  0999-01-01, merged into the position dated 2021-01-01, is stored as \<^verbatim>\<open>999-01-01\<close>, which
  reads back as no date.
\<close>

theorem purchase_date_clamp_counterexample:
  "buy_without_date ''buy_date'' = None
   \<and> dashboard_post decimal_int decimal_float day_2024_03_01 buy_without_date empty_db
       = (Raised BadRequestKeyError, empty_db)
   \<and> stocks empty_db = []
   \<and> buy_dated_0999 ''buy_date'' = Some ''0999-01-01''
   \<and> parse_date ''0999-01-01'' = Some day_0999_01_01
   \<and> date_le day_0999_01_01 day_2024_03_01
   \<and> dashboard_post decimal_int decimal_float day_2024_03_01 buy_dated_0999 aapl_db
       = (Redirect ''/'',
          \<lparr>stocks = [\<lparr>row_id = 1, symbol = ''AAPL'', quantity = 20, buy_price = 150,
                       buy_date = ''999-01-01'', row_notes = []\<rparr>],
           watchlist = [], alerts = []\<rparr>)
   \<and> parse_date ''999-01-01'' = None"
proof -
  have "dashboard_post decimal_int decimal_float day_2024_03_01 buy_without_date empty_db
          = (Raised BadRequestKeyError, empty_db)"
    by (simp add: dashboard_post_def buy_without_date_def form_eval)
  then show ?thesis
    unfolding post_buy_dated_0999
    by (simp add: example_dates_0999 buy_without_date_def buy_dated_0999_def empty_db_def)
qed

subsection \<open>Rejected input\<close>

lemma read_purchase_rejects:
  assumes "(case f ''quantity'' of None \<Rightarrow> True | Some qs \<Rightarrow> py_int qs = None)
           \<or> (case f ''buy_price'' of None \<Rightarrow> True | Some ps \<Rightarrow> py_float ps = None)"
  shows "read_purchase py_int py_float f = Inl ValueError
         \<or> read_purchase py_int py_float f = Inl BadRequestKeyError"
  using assms by (auto simp: read_purchase_def split: option.splits)

text \<open>
  Claim C8, as the code has it. A purchase whose quantity \<^verbatim>\<open>int()\<close> rejects or whose price
  \<^verbatim>\<open>float()\<close> rejects, and an alert whose target \<^verbatim>\<open>float()\<close> rejects (or a form that lacks
  one of these fields), raises out of the handler, a \<^verbatim>\<open>ValueError\<close> or the error of the
  missing field, and the database is the one before the request: positions, watchlist and
  alerts.
\<close>

theorem input_error_no_write:
  "((case f ''quantity'' of None \<Rightarrow> True | Some qs \<Rightarrow> py_int qs = None)
      \<or> (case f ''buy_price'' of None \<Rightarrow> True | Some ps \<Rightarrow> py_float ps = None) \<longrightarrow>
      dashboard_post py_int py_float today f d = (Raised ValueError, d)
      \<or> dashboard_post py_int py_float today f d = (Raised BadRequestKeyError, d))
   \<and> ((case g ''target'' of None \<Rightarrow> True | Some ts \<Rightarrow> py_float ts = None) \<longrightarrow>
      add_alert py_float g d = (Raised ValueError, d)
      \<or> add_alert py_float g d = (Raised BadRequestKeyError, d))"
proof -
  have a: "dashboard_post py_int py_float today f d = (Raised ValueError, d)
           \<or> dashboard_post py_int py_float today f d = (Raised BadRequestKeyError, d)"
    if "(case f ''quantity'' of None \<Rightarrow> True | Some qs \<Rightarrow> py_int qs = None)
        \<or> (case f ''buy_price'' of None \<Rightarrow> True | Some ps \<Rightarrow> py_float ps = None)"
    using read_purchase_rejects [OF that] by (auto simp: dashboard_post_error)
  have b: "add_alert py_float g d = (Raised ValueError, d)
           \<or> add_alert py_float g d = (Raised BadRequestKeyError, d)"
    if "case g ''target'' of None \<Rightarrow> True | Some ts \<Rightarrow> py_float ts = None"
    using that by (auto simp: add_alert_def split: option.splits)
  show ?thesis using a b by blast
qed

text \<open>A quantity of \<^verbatim>\<open>ten\<close> and a target of \<^verbatim>\<open>high\<close>: \<^verbatim>\<open>ValueError\<close>, nothing written.\<close>

theorem input_error_no_write_witness:
  "dashboard_post decimal_int decimal_float day_2024_03_01
     (buy_10_at_200(''quantity'' \<mapsto> ''ten'')) undated_db = (Raised ValueError, undated_db)
   \<and> add_alert decimal_float [''symbol'' \<mapsto> ''AAPL'', ''target'' \<mapsto> ''high''] undated_db
       = (Raised ValueError, undated_db)"
proof -
  let ?f = "buy_10_at_200(''quantity'' \<mapsto> ''ten'')"
  let ?g = "[''symbol'' \<mapsto> ''AAPL'', ''target'' \<mapsto> ''high'']"
  have q: "case ?f ''quantity'' of None \<Rightarrow> True | Some qs \<Rightarrow> decimal_int qs = None"
    by (simp add: decimal_int_def is_digit_def)
  have t: "case ?g ''target'' of None \<Rightarrow> True | Some ts \<Rightarrow> decimal_float ts = None"
    by (simp add: decimal_float_def decimal_int_def is_digit_def)
  have nk: "dashboard_post decimal_int decimal_float day_2024_03_01 ?f undated_db
              \<noteq> (Raised BadRequestKeyError, undated_db)"
    by (simp add: dashboard_post_def read_purchase_def buy_10_at_200_def decimal_int_def
        is_digit_def)
  have nk': "add_alert decimal_float ?g undated_db \<noteq> (Raised BadRequestKeyError, undated_db)"
    by (simp add: add_alert_def decimal_float_def decimal_int_def is_digit_def)
  show ?thesis
    using input_error_no_write [where f = ?f and py_int = decimal_int and py_float = decimal_float
        and today = day_2024_03_01 and d = undated_db and g = ?g]
      q t nk nk'
    by blast
qed

text \<open>
  The claim as the specification words it also promises an error, and no write, for a
  symbol that is empty after trimming and for input out of range. Neither handler looks
  at the symbol or at the sign of the quantity: a purchase and an alert with a blank
  symbol are both written, under the empty symbol, and a purchase of 0 units is written
  too, each answered with the redirect.
\<close>

theorem input_error_empty_symbol_counterexample:
  "strip (upper ''  '') = []
   \<and> dashboard_post decimal_int decimal_float day_2024_03_01
       (buy_10_at_200(''symbol'' \<mapsto> ''  '')) empty_db
       = (Redirect ''/'',
          \<lparr>stocks = [\<lparr>row_id = 1, symbol = [], quantity = 10, buy_price = 200,
                       buy_date = ''2020-01-01'', row_notes = []\<rparr>],
           watchlist = [], alerts = []\<rparr>)
   \<and> add_alert decimal_float [''symbol'' \<mapsto> ''  '', ''target'' \<mapsto> ''5''] empty_db
       = (Redirect ''/'', \<lparr>stocks = [], watchlist = [], alerts = [([], 5)]\<rparr>)
   \<and> dashboard_post decimal_int decimal_float day_2024_03_01
       (buy_10_at_200(''quantity'' \<mapsto> ''0'')) empty_db
       = (Redirect ''/'',
          \<lparr>stocks = [\<lparr>row_id = 1, symbol = ''AAPL'', quantity = 0, buy_price = 200,
                       buy_date = ''2020-01-01'', row_notes = []\<rparr>],
           watchlist = [], alerts = []\<rparr>)
   \<and> stocks empty_db = [] \<and> alerts empty_db = []"
  by (simp add: dashboard_post_def buy_10_at_200_def form_eval example_dates select_stock_def
      empty_db_def insert_stock_def inserted_rows_def sqlite_integer_def next_id_def
      add_alert_def)

subsection \<open>The watchlist\<close>

lemma count_list_absent: "x \<notin> set xs \<Longrightarrow> count_list xs x = 0"
  by (induction xs) auto

lemma count_list_distinct: "distinct xs \<Longrightarrow> x \<in> set xs \<Longrightarrow> count_list xs x = 1"
  by (induction xs) (auto simp: count_list_absent)

lemma add_watch_eq:
  assumes "f ''symbol'' = Some s"
  shows "add_watch f d =
           (Redirect ''/'',
            if strip (upper s) = [] \<or> strip (upper s) \<in> set (watchlist d) then d
            else d\<lparr>watchlist := watchlist d @ [strip (upper s)]\<rparr>)"
  using assms by (simp add: add_watch_def insert_watchlist_def Let_def)

lemma add_watch_distinct:
  "distinct (watchlist d) \<Longrightarrow> distinct (watchlist (snd (add_watch f d)))"
  by (auto simp: add_watch_def insert_watchlist_def Let_def split: option.splits)

text \<open>
  Claim C9. Adding a symbol to the watchlist twice, in whatever case and with whatever
  blanks around it, is the same as adding it once: both requests are answered with the
  redirect, the duplicate raises nothing, and the second leaves the database as the first
  left it. A watchlist without duplicates then holds the symbol exactly once, and has no
  duplicates.
\<close>

theorem watchlist_add_idempotent:
  assumes "f1 ''symbol'' = Some s1"
    and "f2 ''symbol'' = Some s2"
    and "strip (upper s1) = strip (upper s2)"
  shows "fst (add_watch f1 d) = Redirect ''/''
         \<and> add_watch f2 (snd (add_watch f1 d)) = (Redirect ''/'', snd (add_watch f1 d))
         \<and> (strip (upper s1) \<noteq> [] \<and> distinct (watchlist d) \<longrightarrow>
              count_list (watchlist (snd (add_watch f2 (snd (add_watch f1 d))))) (strip (upper s1)) = 1
              \<and> distinct (watchlist (snd (add_watch f2 (snd (add_watch f1 d))))))"
  using assms(3)
  by (auto simp: add_watch_eq [of f1 s1, OF assms(1)] add_watch_eq [of f2 s2, OF assms(2)]
      count_list_distinct
      count_list_absent)

text \<open>\<^verbatim>\<open>msft\<close> with a blank before it, then \<^verbatim>\<open>MSFT\<close> with a blank after it: one entry.\<close>

theorem watchlist_add_idempotent_witness:
  "add_watch [''symbol'' \<mapsto> ''MSFT ''] (snd (add_watch [''symbol'' \<mapsto> '' msft''] empty_db))
     = (Redirect ''/'', \<lparr>stocks = [], watchlist = [''MSFT''], alerts = []\<rparr>)
   \<and> count_list
       (watchlist (snd (add_watch [''symbol'' \<mapsto> ''MSFT '']
                          (snd (add_watch [''symbol'' \<mapsto> '' msft''] empty_db))))) ''MSFT'' = 1"
proof -
  have n: "strip (upper '' msft'') = ''MSFT''" "strip (upper ''MSFT '') = ''MSFT''"
    by (simp_all add: form_eval)
  have e: "watchlist empty_db = []" "empty_db\<lparr>watchlist := [''MSFT'']\<rparr>
             = \<lparr>stocks = [], watchlist = [''MSFT''], alerts = []\<rparr>"
    by (simp_all add: empty_db_def)
  have one: "add_watch [''symbol'' \<mapsto> '' msft''] empty_db
               = (Redirect ''/'', \<lparr>stocks = [], watchlist = [''MSFT''], alerts = []\<rparr>)"
    using add_watch_eq [of "[''symbol'' \<mapsto> '' msft'']" "'' msft''" empty_db]
    by (simp add: n e)
  show ?thesis
    using watchlist_add_idempotent [where ?f1.0 = "[''symbol'' \<mapsto> '' msft'']"
        and ?s1.0 = "'' msft''" and ?f2.0 = "[''symbol'' \<mapsto> ''MSFT '']"
        and ?s2.0 = "''MSFT ''" and d = empty_db]
    by (simp add: n e one)
qed

end
